theory Spec2Isabelle
  imports Main
begin

section \<open>JavaScript strings\<close>

text \<open>
  A JavaScript string is a sequence of UTF-16 code units. The sources match on
  characters outside Latin-1 (the marks U+2716 and U+2714 in test output) and
  \<open>trim\<close> strips Unicode white space, so a string is modelled as the list of its
  code units; \<open>js\<close> embeds an ASCII literal.
\<close>

type_synonym jsstring = "nat list"

definition js :: "string \<Rightarrow> jsstring" where
  "js s = map of_char s"

text \<open>Truthiness of a string value: the empty string is falsy.\<close>

definition truthy :: "jsstring \<Rightarrow> bool" where
  "truthy s = (s \<noteq> [])"

text \<open>\<open>x || d\<close> for an optional string \<open>x\<close>: absent and empty both give \<open>d\<close>.\<close>

definition or_else :: "jsstring option \<Rightarrow> jsstring \<Rightarrow> jsstring" where
  "or_else x d = (case x of None \<Rightarrow> d | Some s \<Rightarrow> if truthy s then s else d)"

fun starts_with :: "jsstring \<Rightarrow> jsstring \<Rightarrow> bool" where
  "starts_with [] s = True"
| "starts_with (p # ps) [] = False"
| "starts_with (p # ps) (c # cs) = (p = c \<and> starts_with ps cs)"

fun ends_with :: "jsstring \<Rightarrow> jsstring \<Rightarrow> bool" where
  "ends_with p s = starts_with (rev p) (rev s)"

text \<open>
  \<open>String.prototype.replace\<close> with a string pattern: only the first occurrence
  is replaced.
\<close>

fun replace_first :: "jsstring \<Rightarrow> jsstring \<Rightarrow> jsstring \<Rightarrow> jsstring" where
  "replace_first pat rep [] = (if pat = [] then rep else [])"
| "replace_first pat rep (c # cs) =
     (if starts_with pat (c # cs) then rep @ drop (length pat) (c # cs)
      else c # replace_first pat rep cs)"

text \<open>
  \<open>String.prototype.match\<close> with a pattern that is not global: the pattern is
  tried at every position from the left, and the first position where it matches
  gives the result. The argument \<open>m\<close> is the pattern tried at the head of a string.
\<close>

fun search :: "(jsstring \<Rightarrow> 'a option) \<Rightarrow> jsstring \<Rightarrow> 'a option" where
  "search m [] = m []"
| "search m (c # cs) = (case m (c # cs) of Some r \<Rightarrow> Some r | None \<Rightarrow> search m cs)"

text \<open>\<open>String.prototype.includes\<close>\<close>

definition js_includes :: "jsstring \<Rightarrow> jsstring \<Rightarrow> bool" where
  "js_includes pat s = (search (\<lambda>r. if starts_with pat r then Some () else None) s \<noteq> None)"

text \<open>
  White space as \<open>trim\<close> and the pattern class \<open>\s\<close> see it: the WhiteSpace and
  LineTerminator code points of ECMAScript.
\<close>

definition is_space :: "nat \<Rightarrow> bool" where
  "is_space c =
     (c \<in> {9, 10, 11, 12, 13, 32, 160, 5760, 8232, 8233, 8239, 8287, 12288, 65279}
      \<or> (8192 \<le> c \<and> c \<le> 8202))"


section \<open>Repository coordinates\<close>

text \<open>An exception is modelled by the message of the \<open>Error\<close> thrown.\<close>

type_synonym error = jsstring

record GitHubRepoIdentifiers =
  owner :: jsstring
  repo :: jsstring

definition slash :: nat where
  "slash = 47"

text \<open>
  The pattern \<open>github\.com\/([^\/]+)\/([^\/]+)\<close> tried at the head of the
  string. Both groups are greedy runs of characters other than \<open>/\<close>; a shorter
  run is followed by a character that is no \<open>/\<close>, so backtracking finds nothing
  the longest run does not.
\<close>

definition repo_match_here :: "jsstring \<Rightarrow> (jsstring \<times> jsstring) option" where
  "repo_match_here s =
     (if starts_with (js ''github.com/'') s then
        (let r = drop (length (js ''github.com/'')) s;
             own = takeWhile (\<lambda>c. c \<noteq> slash) r;
             r' = dropWhile (\<lambda>c. c \<noteq> slash) r
         in if own = [] then None
            else (case r' of
                    [] \<Rightarrow> None
                  | _ # r'' \<Rightarrow>
                      (let rp = takeWhile (\<lambda>c. c \<noteq> slash) r''
                       in if rp = [] then None else Some (own, rp))))
      else None)"

definition regex_match_repo :: "jsstring \<Rightarrow> (jsstring \<times> jsstring) option" where
  "regex_match_repo s = search repo_match_here s"

definition extractRepoIdentifiers :: "jsstring \<Rightarrow> error + GitHubRepoIdentifiers" where
  "extractRepoIdentifiers repoUrl =
     (case regex_match_repo repoUrl of
        None \<Rightarrow> Inl (js ''Invalid GitHub URL'')
      | Some (own, rp) \<Rightarrow>
          Inr \<lparr>owner = own, repo = replace_first (js ''.git'') [] rp\<rparr>)"

section \<open>Requests and replies\<close>

text \<open>
  The reply to a \<open>fetch\<close>: the \<open>ok\<close> flag, the status text, and the body as
  \<open>parseJsonSafe\<close> reads it (\<open>None\<close> when the body is no JSON). A \<open>fetch\<close> that
  rejects (a transport failure) is \<open>Inl\<close> of the error's message. The replies of the
  remote services are inputs of every operation.
\<close>

record 'a response =
  ok :: bool
  statusText :: jsstring
  json :: "'a option"

type_synonym 'a fetched = "error + 'a response"

text \<open>An environment variable: unset, or a string; unset and empty are both falsy.\<close>

definition env_set :: "jsstring option \<Rightarrow> bool" where
  "env_set v = (case v of None \<Rightarrow> False | Some s \<Rightarrow> truthy s)"

record GitHubPullRequest =
  pr_title :: "jsstring option"
  pr_body :: "jsstring option"
  pr_diff_url :: "jsstring option"
  pr_comments_url :: "jsstring option"
  pr_message :: "jsstring option"

text \<open>
  \<open>OpenAIChatResponse\<close>: \<open>choices\<close> may be absent, a choice may have no
  \<open>message\<close>, a message no \<open>content\<close>.
\<close>

record OpenAIChatResponse =
  choices :: "jsstring option option list option"
  error_message :: "jsstring option"

text \<open>\<open>openaiJson.choices?.[0]?.message?.content\<close>\<close>

definition first_content :: "OpenAIChatResponse \<Rightarrow> jsstring option" where
  "first_content r =
     (case choices r of
        Some (Some c # _) \<Rightarrow> c
      | _ \<Rightarrow> None)"

text \<open>The state-changing requests an operation sends to GitHub, in order.\<close>

datatype github_write =
  PostComment jsstring jsstring
| PatchPullRequest jsstring int jsstring jsstring
| AddLabels jsstring int "jsstring list"

text \<open>
  The message built from a failed reply:
  \<open>msg ? `${statusText}${sep}${msg}` : statusText\<close>.
\<close>

definition status_message :: "jsstring \<Rightarrow> jsstring \<Rightarrow> jsstring option \<Rightarrow> jsstring" where
  "status_message st sep msg =
     (case msg of
        None \<Rightarrow> st
      | Some m \<Rightarrow> if truthy m then st @ sep @ m else st)"

definition openai_failed :: "OpenAIChatResponse response \<Rightarrow> error" where
  "openai_failed r =
     js ''OpenAI failed: '' @
     status_message (statusText r) (js '' - '')
       (case json r of None \<Rightarrow> None | Some j \<Rightarrow> error_message j)"

definition option_list :: "'a option \<Rightarrow> 'a list" where
  "option_list x = (case x of None \<Rightarrow> [] | Some v \<Rightarrow> [v])"

section \<open>Reading a file\<close>

text \<open>
  The body of a reply of the contents API as the code inspects it: an array (the path
  is a directory) or an object, of which the code reads \<open>content\<close>, \<open>size\<close>,
  \<open>encoding\<close> (each absent or of another type: \<open>None\<close>) and \<open>message\<close>.
\<close>

datatype content_json =
  Listing
| Object "jsstring option" "int option" "jsstring option" "jsstring option"

datatype api_request =
  DefaultBranchQuery
| ContentQuery jsstring
| BranchQuery jsstring

text \<open>
  The replies of GitHub: of the repository endpoint (the body is its
  \<open>default_branch\<close>), of the contents endpoint for each \<open>ref\<close>, of the branch
  endpoint for each branch; \<open>rf_base64\<close> stands for
  \<open>Buffer.from(content, 'base64').toString('utf-8')\<close>.
\<close>

record readfile_env =
  rf_GITHUB_TOKEN :: "jsstring option"
  rf_repoResp :: "jsstring option fetched"
  rf_contentResp :: "jsstring \<Rightarrow> content_json fetched"
  rf_branchResp :: "jsstring \<Rightarrow> unit fetched"
  rf_base64 :: "jsstring \<Rightarrow> jsstring"

record file_result =
  fr_content :: jsstring
  fr_path :: jsstring
  fr_size :: int
  fr_encoding :: jsstring

text \<open>The error \<open>resp.json()\<close> throws on a body that is no JSON.\<close>

definition json_syntax_error :: error where
  "json_syntax_error = js ''Unexpected end of JSON input''"

definition getDefaultBranch :: "jsstring option fetched \<Rightarrow> error + jsstring option" where
  "getDefaultBranch f =
     (case f of
        Inl e \<Rightarrow> Inl e
      | Inr resp \<Rightarrow>
          if \<not> ok resp then Inr None
          else (case json resp of
                  None \<Rightarrow> Inl json_syntax_error
                | Some default_branch \<Rightarrow>
                    (case default_branch of
                       None \<Rightarrow> Inr None
                     | Some d \<Rightarrow> if truthy d then Inr (Some d) else Inr None)))"

definition doesBranchExist :: "unit fetched \<Rightarrow> error + bool" where
  "doesBranchExist f = (case f of Inl e \<Rightarrow> Inl e | Inr resp \<Rightarrow> Inr (ok resp))"

text \<open>
  The candidates: the explicit branch when it is truthy, then the default branch when
  the query for it returned one that is not yet listed (a failure of that query is
  ignored); \<open>main\<close> and \<open>master\<close> only when the list is still empty.
\<close>

definition branchesToTry :: "jsstring option \<Rightarrow> error + jsstring option \<Rightarrow> jsstring list" where
  "branchesToTry branch def =
     (let bs0 = (case branch of None \<Rightarrow> [] | Some b \<Rightarrow> if truthy b then [b] else []);
          bs1 = (case def of
                   Inr (Some d) \<Rightarrow> if truthy d \<and> d \<notin> set bs0 then bs0 @ [d] else bs0
                 | _ \<Rightarrow> bs0)
      in if bs1 = [] then [js ''main'', js ''master''] else bs1)"

text \<open>
  One round of the loop: the file, or the error that becomes \<open>lastError\<close> (thrown
  inside the \<open>try\<close>, or built from a reply that is not ok).
\<close>

definition attempt_branch :: "readfile_env \<Rightarrow> jsstring \<Rightarrow> jsstring \<Rightarrow> error + file_result" where
  "attempt_branch env filePath tryBranch =
     (case rf_contentResp env tryBranch of
        Inl e \<Rightarrow> Inl e
      | Inr response \<Rightarrow>
          if ok response then
            (case json response of
               None \<Rightarrow> Inl (js ''Received empty response from GitHub'')
             | Some Listing \<Rightarrow>
                 Inl (js ''Path '' @ [39] @ filePath @ [39] @ js '' is a directory, not a file'')
             | Some (Object (Some content) (Some sz) (Some encoding) m) \<Rightarrow>
                 Inr \<lparr>fr_content = rf_base64 env content, fr_path = filePath,
                      fr_size = sz, fr_encoding = encoding\<rparr>
             | Some (Object c sz en m) \<Rightarrow> Inl (js ''Unexpected response format from GitHub''))
          else
            (let errorMessage =
                   (case json response of Some (Object c sz en m) \<Rightarrow> m | _ \<Rightarrow> None);
                 message = status_message (statusText response) (js '' - '') errorMessage
             in Inl (js ''Branch '' @ [39] @ tryBranch @ [39] @ js '': '' @ message)))"

text \<open>
  The loop over the candidates: it returns at the first file; the result carries
  \<open>lastError\<close> and the branches asked for, in order.
\<close>

fun try_branches ::
  "readfile_env \<Rightarrow> jsstring \<Rightarrow> jsstring list \<Rightarrow> error option
     \<Rightarrow> file_result option \<times> error option \<times> jsstring list" where
  "try_branches env filePath [] lastError = (None, lastError, [])"
| "try_branches env filePath (tryBranch # rest) lastError =
     (case attempt_branch env filePath tryBranch of
        Inr file \<Rightarrow> (Some file, lastError, [tryBranch])
      | Inl e \<Rightarrow>
          (case try_branches env filePath rest (Some e) of
             (r, le, tried) \<Rightarrow> (r, le, tryBranch # tried)))"

definition branch_not_found :: "jsstring \<Rightarrow> jsstring \<Rightarrow> jsstring \<Rightarrow> error" where
  "branch_not_found filePath repoName b =
     js ''Failed to fetch file '' @ [39] @ filePath @ [39] @ js '' from '' @ repoName
       @ js ''. Branch '' @ [39] @ b @ [39] @ js '' not found.''"

definition fetch_failed :: "jsstring \<Rightarrow> jsstring \<Rightarrow> error option \<Rightarrow> error" where
  "fetch_failed filePath repoName lastError =
     js ''Failed to fetch file '' @ [39] @ filePath @ [39] @ js '' from '' @ repoName
       @ js ''. Last error: ''
       @ (case lastError of None \<Rightarrow> js ''undefined'' | Some m \<Rightarrow> m)
       @ js ''. Path might not exist. Use list-repo-files to explore directories.''"

text \<open>
  After the loop the existence of one branch is asked for inside a \<open>try\<close> whose
  \<open>catch\<close> is empty: the error thrown there for a missing branch is caught by it,
  like a failure of the query, and the last \<open>throw\<close> is reached either way.
\<close>

definition readFileFromRepo ::
  "readfile_env \<Rightarrow> jsstring \<Rightarrow> jsstring \<Rightarrow> jsstring option
     \<Rightarrow> (error + file_result) \<times> api_request list" where
  "readFileFromRepo env repoUrl filePath branch =
     (case extractRepoIdentifiers repoUrl of
        Inl e \<Rightarrow> (Inl e, [])
      | Inr ids \<Rightarrow>
          (let repoName = owner ids @ js ''/'' @ repo ids in
           if \<not> env_set (rf_GITHUB_TOKEN env) then (Inl (js ''GITHUB_TOKEN not set''), [])
           else
             (let cands = branchesToTry branch (getDefaultBranch (rf_repoResp env)) in
              case try_branches env filePath cands None of
                (Some file, lastError, tried) \<Rightarrow>
                  (Inr file, DefaultBranchQuery # map ContentQuery tried)
              | (None, lastError, tried) \<Rightarrow>
                  (let branchToExplain =
                         (case branch of
                            None \<Rightarrow> (case cands of [] \<Rightarrow> js ''undefined'' | b # _ \<Rightarrow> b)
                          | Some b \<Rightarrow>
                              if truthy b then b
                              else (case cands of [] \<Rightarrow> js ''undefined'' | b' # _ \<Rightarrow> b'));
                       probe =
                         (case doesBranchExist (rf_branchResp env branchToExplain) of
                            Inl e \<Rightarrow> Inl e
                          | Inr branchExists \<Rightarrow>
                              if \<not> branchExists
                              then Inl (branch_not_found filePath repoName branchToExplain)
                              else Inr ());
                       requests = DefaultBranchQuery # map ContentQuery tried
                                    @ [BranchQuery branchToExplain]
                   in case probe of
                        Inl caught \<Rightarrow> (Inl (fetch_failed filePath repoName lastError), requests)
                      | Inr u \<Rightarrow> (Inl (fetch_failed filePath repoName lastError), requests)))))"

text \<open>The branches asked of the contents endpoint, in order.\<close>

definition content_branches :: "api_request list \<Rightarrow> jsstring list" where
  "content_branches rs = concat (map (\<lambda>r. case r of ContentQuery b \<Rightarrow> [b] | _ \<Rightarrow> []) rs)"

text \<open>
  The candidate list in the words of the specification: the explicit branch, the
  default branch, then the conventional names, without duplicates (the first
  occurrence stays). \<open>conventional_candidates conv\<close> is that list with \<open>conv\<close> in
  the place of the conventional names.
\<close>

definition dedup :: "jsstring list \<Rightarrow> jsstring list" where
  "dedup xs = rev (remdups (rev xs))"

definition conventional_candidates ::
  "jsstring list \<Rightarrow> jsstring option \<Rightarrow> jsstring option \<Rightarrow> jsstring list" where
  "conventional_candidates conv explicit default_branch =
     dedup (option_list explicit @ option_list default_branch @ conv)"

definition spec_branch_candidates :: "jsstring option \<Rightarrow> jsstring option \<Rightarrow> jsstring list" where
  "spec_branch_candidates explicit default_branch =
     conventional_candidates [js ''main'', js ''master''] explicit default_branch"

text \<open>
  The explicit branch as the code takes it (a truthy string), and the default branch
  as the code obtains it (the query returned a truthy name).
\<close>

definition given_branch :: "jsstring option \<Rightarrow> jsstring option" where
  "given_branch branch = (case branch of None \<Rightarrow> None | Some b \<Rightarrow> if truthy b then Some b else None)"

definition obtained_default :: "error + jsstring option \<Rightarrow> jsstring option" where
  "obtained_default def = (case def of Inr (Some d) \<Rightarrow> if truthy d then Some d else None | _ \<Rightarrow> None)"

text \<open>
  Example replies: a repository whose default branch is \<open>default_branch\<close>, where
  \<open>README.md\<close> (the text \<open># R\<close>) is on the branch \<open>holder\<close> only, and the
  branches that exist are those of \<open>exists_branch\<close>.
\<close>

definition not_found_reply :: "content_json fetched" where
  "not_found_reply = Inr \<lparr>ok = False, statusText = js ''Not Found'', json = None\<rparr>"

definition readme_reply :: "content_json fetched" where
  "readme_reply = Inr \<lparr>ok = True, statusText = js ''OK'',
     json = Some (Object (Some (js ''IyBS'')) (Some 3) (Some (js ''base64'')) None)\<rparr>"

definition readfile_env_of ::
  "jsstring \<Rightarrow> jsstring \<Rightarrow> (jsstring \<Rightarrow> bool) \<Rightarrow> readfile_env" where
  "readfile_env_of default_branch holder exists_branch =
     \<lparr>rf_GITHUB_TOKEN = Some (js ''t''),
      rf_repoResp = Inr \<lparr>ok = True, statusText = js ''OK'', json = Some (Some default_branch)\<rparr>,
      rf_contentResp = (\<lambda>b. if b = holder then readme_reply else not_found_reply),
      rf_branchResp = (\<lambda>b. Inr \<lparr>ok = exists_branch b, statusText = js ''-'', json = None\<rparr>),
      rf_base64 = (\<lambda>s. if s = js ''IyBS'' then js ''# R'' else [])\<rparr>"

definition readme_file :: file_result where
  "readme_file = \<lparr>fr_content = js ''# R'', fr_path = js ''README.md'', fr_size = 3,
                   fr_encoding = js ''base64''\<rparr>"

section \<open>Operations that publish generated text\<close>

text \<open>
  The environment of the operations that ask the language model about a pull request:
  the process variables and the replies to the requests they send. The prompt only
  feeds the request to the model, whose reply is an input here, so the texts that only
  go into the prompt (the diff, the commit messages, the file list, the question) are
  left out; the replies that carry them stay, for a failed request ends the operation.
  The body of the reply to a posted comment is its \<open>html_url\<close>.
\<close>

record ai_env =
  ai_GITHUB_TOKEN :: "jsstring option"
  ai_OPENAI_API_KEY :: "jsstring option"
  ai_OPENAI_MODEL_NAME :: "jsstring option"
  ai_prMetaResp :: "GitHubPullRequest fetched"
  ai_diffResp :: "unit fetched"
  ai_commitsResp :: "unit fetched"
  ai_filesResp :: "unit fetched"
  ai_openaiResp :: "OpenAIChatResponse fetched"
  ai_patchResp :: "unit fetched"
  ai_pubResp :: "jsstring option fetched"

text \<open>
  The result of the review, improve, ask and changelog operations; the field
  \<open>ar_text\<close> is called \<open>review\<close>, \<open>suggestions\<close>, \<open>answer\<close> and
  \<open>changelog\<close> in the four sources.
\<close>

record ai_result =
  ar_success :: bool
  ar_text :: jsstring
  ar_model :: jsstring
  ar_publishedUrl :: "jsstring option"

record describe_result =
  dr_success :: bool
  dr_title :: jsstring
  dr_description :: jsstring
  dr_model :: jsstring
  dr_published :: bool

text \<open>
  The read of the pull request, as aiImprovePullRequest, aiAskPullRequest and
  aiDraftChangelog write it: the body goes through \<open>parseJsonSafe\<close>, and a reply
  that is not ok or has no body is an error.
\<close>

definition pr_metadata :: "GitHubPullRequest fetched \<Rightarrow> error + GitHubPullRequest" where
  "pr_metadata f =
     (case f of
        Inl e \<Rightarrow> Inl e
      | Inr prMetaResp \<Rightarrow>
          (case json prMetaResp of
             None \<Rightarrow> Inl (js ''Failed to fetch PR metadata: '' @ statusText prMetaResp)
           | Some prMeta \<Rightarrow>
               if \<not> ok prMetaResp then
                 Inl (js ''Failed to fetch PR metadata: '' @
                      status_message (statusText prMetaResp) (js '' - '') (pr_message prMeta))
               else Inr prMeta))"

text \<open>
  The read of the pull request, as aiReviewPullRequest and aiDescribePullRequest write
  it: a reply that is not ok is an error with the given prefix, and the body of an ok
  reply is read with \<open>json()\<close>, which throws when it is no JSON.
\<close>

definition pr_metadata_strict ::
  "jsstring \<Rightarrow> GitHubPullRequest fetched \<Rightarrow> error + GitHubPullRequest" where
  "pr_metadata_strict what f =
     (case f of
        Inl e \<Rightarrow> Inl e
      | Inr prMetaResp \<Rightarrow>
          if \<not> ok prMetaResp then
            Inl (what @ status_message (statusText prMetaResp) (js '' - '')
                   (case json prMetaResp of None \<Rightarrow> None | Some j \<Rightarrow> pr_message j))
          else (case json prMetaResp of
                  None \<Rightarrow> Inl json_syntax_error
                | Some prMeta \<Rightarrow> Inr prMeta))"

text \<open>The answer of the model, read through \<open>parseJsonSafe\<close>.\<close>

definition chat_content :: "OpenAIChatResponse fetched \<Rightarrow> error + jsstring" where
  "chat_content f =
     (case f of
        Inl e \<Rightarrow> Inl e
      | Inr openaiResp \<Rightarrow>
          (case json openaiResp of
             None \<Rightarrow> Inl (openai_failed openaiResp)
           | Some openaiJson \<Rightarrow>
               if \<not> ok openaiResp then Inl (openai_failed openaiResp)
               else Inr (or_else (first_content openaiJson) [])))"

text \<open>The answer of the model, read with \<open>json()\<close> after the test of \<open>ok\<close>.\<close>

definition chat_json :: "OpenAIChatResponse fetched \<Rightarrow> error + OpenAIChatResponse" where
  "chat_json f =
     (case f of
        Inl e \<Rightarrow> Inl e
      | Inr openaiResp \<Rightarrow>
          if \<not> ok openaiResp then Inl (openai_failed openaiResp)
          else (case json openaiResp of
                  None \<Rightarrow> Inl json_syntax_error
                | Some openaiData \<Rightarrow> Inr openaiData))"

text \<open>
  The publish step of aiImprovePullRequest, aiAskPullRequest and aiDraftChangelog:
  the comment is posted when \<open>publish\<close> is set, the token is truthy and the pull
  request has a \<open>comments_url\<close>. The \<open>fetch\<close> stands outside any \<open>try\<close>, so
  its rejection leaves the operation; a reply that is not ok leaves \<open>publishedUrl\<close>
  undefined.
\<close>

definition post_comment ::
  "ai_env \<Rightarrow> bool \<Rightarrow> jsstring \<Rightarrow> GitHubPullRequest \<Rightarrow> jsstring
     \<Rightarrow> (error + jsstring option) \<times> github_write list" where
  "post_comment env publish ghToken prMeta text =
     (case pr_comments_url prMeta of
        None \<Rightarrow> (Inr None, [])
      | Some comments_url \<Rightarrow>
          if publish \<and> truthy ghToken \<and> truthy comments_url then
            (case ai_pubResp env of
               Inl e \<Rightarrow> (Inl e, [PostComment comments_url text])
             | Inr pubResp \<Rightarrow>
                 (Inr (if ok pubResp
                       then (case json pubResp of Some (Some html_url) \<Rightarrow> Some html_url | _ \<Rightarrow> None)
                       else None),
                  [PostComment comments_url text]))
          else (Inr None, []))"

text \<open>The error of \<open>fetch\<close> called with a URL that is undefined or empty.\<close>

definition invalid_url_error :: error where
  "invalid_url_error = js ''Failed to parse URL''"

text \<open>
  The publish step of aiReviewPullRequest: the same request inside \<open>try\<close> with an
  empty \<open>catch\<close>, under the test of \<open>publish\<close> and the token only.
\<close>

definition post_comment_guarded ::
  "ai_env \<Rightarrow> bool \<Rightarrow> jsstring \<Rightarrow> GitHubPullRequest \<Rightarrow> jsstring
     \<Rightarrow> jsstring option \<times> github_write list" where
  "post_comment_guarded env publish ghToken prMeta text =
     (if publish \<and> truthy ghToken then
        (case pr_comments_url prMeta of
           None \<Rightarrow> (None, [])
         | Some commentsUrl \<Rightarrow>
             if \<not> truthy commentsUrl then (None, [])
             else
               (case ai_pubResp env of
                  Inl caught \<Rightarrow> (None, [PostComment commentsUrl text])
                | Inr pubResp \<Rightarrow>
                    (if ok pubResp
                     then (case json pubResp of Some (Some html_url) \<Rightarrow> Some html_url | _ \<Rightarrow> None)
                     else None,
                     [PostComment commentsUrl text])))
      else (None, []))"

definition default_model :: "ai_env \<Rightarrow> jsstring" where
  "default_model env = or_else (ai_OPENAI_MODEL_NAME env) (js ''gpt-4o-mini'')"

definition finish_published ::
  "ai_env \<Rightarrow> jsstring \<Rightarrow> (error + jsstring option) \<times> github_write list
     \<Rightarrow> (error + ai_result) \<times> github_write list" where
  "finish_published env text p =
     (case p of
        (Inl e, ws) \<Rightarrow> (Inl e, ws)
      | (Inr publishedUrl, ws) \<Rightarrow>
          (Inr \<lparr>ar_success = True, ar_text = text, ar_model = default_model env,
                ar_publishedUrl = publishedUrl\<rparr>, ws))"

definition aiImprovePullRequest ::
  "ai_env \<Rightarrow> jsstring \<Rightarrow> int \<Rightarrow> bool \<Rightarrow> (error + ai_result) \<times> github_write list" where
  "aiImprovePullRequest env repoUrl prNumber publish =
     (case extractRepoIdentifiers repoUrl of
        Inl e \<Rightarrow> (Inl e, [])
      | Inr ids \<Rightarrow>
          (let ghToken = or_else (ai_GITHUB_TOKEN env) [] in
           if \<not> env_set (ai_OPENAI_API_KEY env) then (Inl (js ''OPENAI_API_KEY not set''), [])
           else
             (case pr_metadata (ai_prMetaResp env) of
                Inl e \<Rightarrow> (Inl e, [])
              | Inr prMeta \<Rightarrow>
                  if or_else (pr_diff_url prMeta) [] = [] then
                    (Inl (js ''PR diff URL is missing''), [])
                  else
                    (case ai_diffResp env of
                       Inl e \<Rightarrow> (Inl e, [])
                     | Inr diffResp \<Rightarrow>
                         if \<not> ok diffResp then
                           (Inl (js ''Failed to fetch PR diff: '' @ statusText diffResp), [])
                         else
                           (case chat_content (ai_openaiResp env) of
                              Inl e \<Rightarrow> (Inl e, [])
                            | Inr suggestions \<Rightarrow>
                                finish_published env suggestions
                                  (post_comment env publish ghToken prMeta suggestions))))))"

definition aiAskPullRequest ::
  "ai_env \<Rightarrow> jsstring \<Rightarrow> int \<Rightarrow> jsstring \<Rightarrow> bool
     \<Rightarrow> (error + ai_result) \<times> github_write list" where
  "aiAskPullRequest env repoUrl prNumber question publish =
     (case extractRepoIdentifiers repoUrl of
        Inl e \<Rightarrow> (Inl e, [])
      | Inr ids \<Rightarrow>
          (let ghToken = or_else (ai_GITHUB_TOKEN env) [] in
           if \<not> env_set (ai_OPENAI_API_KEY env) then (Inl (js ''OPENAI_API_KEY not set''), [])
           else
             (case pr_metadata (ai_prMetaResp env) of
                Inl e \<Rightarrow> (Inl e, [])
              | Inr prMeta \<Rightarrow>
                  (case chat_content (ai_openaiResp env) of
                     Inl e \<Rightarrow> (Inl e, [])
                   | Inr answer \<Rightarrow>
                       finish_published env answer
                         (post_comment env publish ghToken prMeta answer)))))"

definition aiDraftChangelog ::
  "ai_env \<Rightarrow> jsstring \<Rightarrow> int \<Rightarrow> bool \<Rightarrow> (error + ai_result) \<times> github_write list" where
  "aiDraftChangelog env repoUrl prNumber publish =
     (case extractRepoIdentifiers repoUrl of
        Inl e \<Rightarrow> (Inl e, [])
      | Inr ids \<Rightarrow>
          (let ghToken = or_else (ai_GITHUB_TOKEN env) [] in
           if \<not> env_set (ai_OPENAI_API_KEY env) then (Inl (js ''OPENAI_API_KEY not set''), [])
           else
             (case pr_metadata (ai_prMetaResp env) of
                Inl e \<Rightarrow> (Inl e, [])
              | Inr prMeta \<Rightarrow>
                  (case ai_commitsResp env of
                     Inl e \<Rightarrow> (Inl e, [])
                   | Inr commitsResp \<Rightarrow>
                       (case chat_content (ai_openaiResp env) of
                          Inl e \<Rightarrow> (Inl e, [])
                        | Inr changelog \<Rightarrow>
                            finish_published env changelog
                              (post_comment env publish ghToken prMeta
                                 (js ''Proposed CHANGELOG entry:'' @ [10, 10] @ changelog)))))))"

text \<open>
  aiReviewPullRequest and aiDescribePullRequest match the URL themselves, with the
  pattern and the replacement of extractRepoIdentifiers and the same message.
\<close>

definition aiReviewPullRequest ::
  "ai_env \<Rightarrow> jsstring \<Rightarrow> int \<Rightarrow> bool \<Rightarrow> (error + ai_result) \<times> github_write list" where
  "aiReviewPullRequest env repoUrl prNumber publish =
     (case extractRepoIdentifiers repoUrl of
        Inl e \<Rightarrow> (Inl e, [])
      | Inr ids \<Rightarrow>
          (let ghToken = or_else (ai_GITHUB_TOKEN env) [] in
           if \<not> env_set (ai_OPENAI_API_KEY env) then (Inl (js ''OPENAI_API_KEY not set''), [])
           else
             (case pr_metadata_strict (js ''Failed to fetch PR meta: '') (ai_prMetaResp env) of
                Inl e \<Rightarrow> (Inl e, [])
              | Inr prMeta \<Rightarrow>
                  (case ai_commitsResp env of
                     Inl e \<Rightarrow> (Inl e, [])
                   | Inr commitsResp \<Rightarrow>
                       if ok commitsResp \<and> json commitsResp = None then (Inl json_syntax_error, [])
                       else if or_else (pr_diff_url prMeta) [] = [] then (Inl invalid_url_error, [])
                       else
                         (case ai_diffResp env of
                            Inl e \<Rightarrow> (Inl e, [])
                          | Inr diffResp \<Rightarrow>
                              if \<not> ok diffResp then
                                (Inl (js ''Failed to fetch PR diff: '' @ statusText diffResp), [])
                              else
                                (case chat_json (ai_openaiResp env) of
                                   Inl e \<Rightarrow> (Inl e, [])
                                 | Inr openaiData \<Rightarrow>
                                     (let reviewText = or_else (first_content openaiData) [] in
                                      case post_comment_guarded env publish ghToken prMeta reviewText of
                                        (publishedUrl, ws) \<Rightarrow>
                                          (Inr \<lparr>ar_success = True, ar_text = reviewText,
                                                ar_model = default_model env,
                                                ar_publishedUrl = publishedUrl\<rparr>, ws))))))))"

text \<open>
  What \<open>JSON.parse\<close> makes of the answer in aiDescribePullRequest: no JSON (the
  \<open>catch\<close> keeps the empty object), the value \<open>null\<close>, or a value whose
  \<open>title\<close> and \<open>description\<close> are read.
\<close>

datatype parsed_description =
  NoJson
| JsonNull
| JsonFields "jsstring option" "jsstring option"

definition undefined_read :: error where
  "undefined_read = js ''Cannot read properties of undefined''"

text \<open>The comment of the fallback, built from the title and the description.\<close>

definition suggestion_comment :: "jsstring \<Rightarrow> jsstring \<Rightarrow> jsstring" where
  "suggestion_comment title description =
     js ''Suggested Title:'' @ [10] @ title @ [10, 10] @ js ''Suggested Description:''
       @ [10, 10] @ description"

text \<open>
  The publish step of aiDescribePullRequest, inside \<open>try\<close> with an empty
  \<open>catch\<close>: the PATCH, and on a reply that is not ok the comment, if the pull
  request has a \<open>comments_url\<close>. The reply to that comment is not read.
\<close>

definition publish_description ::
  "ai_env \<Rightarrow> bool \<Rightarrow> jsstring \<Rightarrow> jsstring \<Rightarrow> int \<Rightarrow> GitHubPullRequest
     \<Rightarrow> jsstring \<Rightarrow> jsstring \<Rightarrow> bool \<times> github_write list" where
  "publish_description env publish ghToken repoName prNumber prMeta title description =
     (if publish \<and> truthy ghToken then
        (case ai_patchResp env of
           Inl caught \<Rightarrow> (False, [PatchPullRequest repoName prNumber title description])
         | Inr patchResp \<Rightarrow>
             if ok patchResp then (True, [PatchPullRequest repoName prNumber title description])
             else
               (case pr_comments_url prMeta of
                  None \<Rightarrow> (False, [PatchPullRequest repoName prNumber title description])
                | Some commentsUrl \<Rightarrow>
                    if truthy commentsUrl then
                      (False, [PatchPullRequest repoName prNumber title description,
                               PostComment commentsUrl (suggestion_comment title description)])
                    else (False, [PatchPullRequest repoName prNumber title description])))
      else (False, []))"

definition aiDescribePullRequest ::
  "(jsstring \<Rightarrow> parsed_description) \<Rightarrow> ai_env \<Rightarrow> jsstring \<Rightarrow> int \<Rightarrow> bool
     \<Rightarrow> (error + describe_result) \<times> github_write list" where
  "aiDescribePullRequest JSON_parse env repoUrl prNumber publish =
     (case extractRepoIdentifiers repoUrl of
        Inl e \<Rightarrow> (Inl e, [])
      | Inr ids \<Rightarrow>
          (let repoName = owner ids @ js ''/'' @ repo ids;
               ghToken = or_else (ai_GITHUB_TOKEN env) [] in
           if \<not> env_set (ai_OPENAI_API_KEY env) then (Inl (js ''OPENAI_API_KEY not set''), [])
           else
             (case pr_metadata_strict (js ''Failed to fetch PR: '') (ai_prMetaResp env) of
                Inl e \<Rightarrow> (Inl e, [])
              | Inr prMeta \<Rightarrow>
                  (case ai_filesResp env of
                     Inl e \<Rightarrow> (Inl e, [])
                   | Inr filesResp \<Rightarrow>
                       if ok filesResp \<and> json filesResp = None then (Inl json_syntax_error, [])
                       else
                         (case chat_json (ai_openaiResp env) of
                            Inl e \<Rightarrow> (Inl e, [])
                          | Inr openaiData \<Rightarrow>
                              (case choices openaiData of
                                 Some (Some content # others) \<Rightarrow>
                                   (case JSON_parse (or_else content (js ''{}'')) of
                                      JsonNull \<Rightarrow> (Inl undefined_read, [])
                                    | parsed \<Rightarrow>
                                        (let parsed_title =
                                               (case parsed of JsonFields t d \<Rightarrow> t | _ \<Rightarrow> None);
                                             parsed_description =
                                               (case parsed of JsonFields t d \<Rightarrow> d | _ \<Rightarrow> None);
                                             title = take 256 (or_else parsed_title
                                                       (or_else (pr_title prMeta) []));
                                             description = take 40000 (or_else parsed_description [])
                                         in case publish_description env publish ghToken repoName
                                                   prNumber prMeta title description of
                                              (published, ws) \<Rightarrow>
                                                (Inr \<lparr>dr_success = True, dr_title = title,
                                                      dr_description = description,
                                                      dr_model = default_model env,
                                                      dr_published = published\<rparr>, ws)))
                               | _ \<Rightarrow> (Inl undefined_read, [])))))))"

text \<open>
  Example replies: every read succeeds, the model answers \<open>A\<close>, which parses to the
  title \<open>N\<close> and the description \<open>D\<close>; the pull request has the given
  \<open>comments_url\<close>, and the PATCH and the posted comment get the given replies.
\<close>

definition ok_reply :: "'a \<Rightarrow> 'a fetched" where
  "ok_reply body = Inr \<lparr>ok = True, statusText = js ''OK'', json = Some body\<rparr>"

definition forbidden_reply :: "'a fetched" where
  "forbidden_reply = Inr \<lparr>ok = False, statusText = js ''Forbidden'', json = None\<rparr>"

definition example_pr :: "jsstring option \<Rightarrow> GitHubPullRequest" where
  "example_pr comments_url =
     \<lparr>pr_title = Some (js ''T''), pr_body = None, pr_diff_url = Some (js ''d''),
      pr_comments_url = comments_url, pr_message = None\<rparr>"

definition ai_env_of :: "jsstring option \<Rightarrow> unit fetched \<Rightarrow> jsstring option fetched \<Rightarrow> ai_env" where
  "ai_env_of comments_url patchResp pubResp =
     \<lparr>ai_GITHUB_TOKEN = Some (js ''t''),
      ai_OPENAI_API_KEY = Some (js ''k''),
      ai_OPENAI_MODEL_NAME = None,
      ai_prMetaResp = ok_reply (example_pr comments_url),
      ai_diffResp = ok_reply (),
      ai_commitsResp = ok_reply (),
      ai_filesResp = ok_reply (),
      ai_openaiResp = ok_reply \<lparr>choices = Some [Some (Some (js ''A''))], error_message = None\<rparr>,
      ai_patchResp = patchResp,
      ai_pubResp = pubResp\<rparr>"

definition example_parse :: "jsstring \<Rightarrow> parsed_description" where
  "example_parse s = (if s = js ''A'' then JsonFields (Some (js ''N'')) (Some (js ''D'')) else NoJson)"

section \<open>Ephemeral workspaces\<close>

text \<open>
  The file system is the set of the paths that exist. \<open>mkdtemp\<close> makes a directory
  whose name is the given prefix and some characters of its choice; a clone and a
  command write files under the directory they work in; \<open>rm\<close> with
  \<open>recursive\<close> and \<open>force\<close> removes a directory and every path under it, and
  is modelled by that effect.
\<close>

type_synonym filesystem = "jsstring set"

definition under :: "jsstring \<Rightarrow> jsstring \<Rightarrow> bool" where
  "under dir p = (p = dir \<or> starts_with (dir @ [slash]) p)"

definition rm :: "jsstring \<Rightarrow> filesystem \<Rightarrow> filesystem" where
  "rm dir fs = {p \<in> fs. \<not> under dir p}"

definition write_files :: "jsstring \<Rightarrow> jsstring list \<Rightarrow> filesystem \<Rightarrow> filesystem" where
  "write_files dir names fs = fs \<union> (\<lambda>n. dir @ [slash] @ n) ` set names"

text \<open>
  A run of \<open>git clone\<close>: the error it ends with, if any, and the files it wrote
  (some may be written before a failure).
\<close>

record clone_run =
  cl_error :: "error option"
  cl_wrote :: "jsstring list"

text \<open>
  A run of \<open>execAsync\<close>: it resolves with the two outputs, or rejects (a non-zero
  exit status, the time limit, the buffer limit) with an error that has a message and
  may carry the outputs; either way the command may have written files.
\<close>

datatype exec_failure = NonZeroExit | TimedOut | BufferExceeded

datatype exec_result =
  Exited jsstring jsstring
| Rejected exec_failure jsstring "jsstring option" "jsstring option"

record command_run =
  cr_result :: exec_result
  cr_wrote :: "jsstring list"

record ws_env =
  ws_tmpdir :: jsstring
  ws_mkdtemp :: "error + jsstring"
  ws_clone :: clone_run
  ws_exec :: "jsstring \<Rightarrow> command_run"

text \<open>
  \<open>mkdtemp(join(tmpdir(), name))\<close>; \<open>join\<close> is modelled as concatenation with
  a separator.
\<close>

definition mkdtemp :: "'a ws_env_scheme \<Rightarrow> jsstring \<Rightarrow> filesystem \<Rightarrow> (error + jsstring) \<times> filesystem" where
  "mkdtemp env name fs =
     (case ws_mkdtemp env of
        Inl e \<Rightarrow> (Inl e, fs)
      | Inr suffix \<Rightarrow>
          (let dir = ws_tmpdir env @ [slash] @ name @ suffix in (Inr dir, insert dir fs)))"

definition clone :: "'a ws_env_scheme \<Rightarrow> jsstring \<Rightarrow> filesystem \<Rightarrow> error option \<times> filesystem" where
  "clone env dir fs = (cl_error (ws_clone env), write_files dir (cl_wrote (ws_clone env)) fs)"

definition execAsync :: "'a ws_env_scheme \<Rightarrow> jsstring \<Rightarrow> jsstring \<Rightarrow> filesystem \<Rightarrow> exec_result \<times> filesystem" where
  "execAsync env cmd cwd fs =
     (cr_result (ws_exec env cmd), write_files cwd (cr_wrote (ws_exec env cmd)) fs)"

text \<open>
  The \<open>finally\<close> block of every operation: \<open>if (tmpDir) rm(tmpDir, ...)\<close>, run
  after the body whatever its result. An operation returns its result, the file
  system it leaves, and the last value of its variable \<open>tmpDir\<close>.
\<close>

definition finally_rm :: "jsstring option \<Rightarrow> filesystem \<Rightarrow> filesystem" where
  "finally_rm tmpDir fs =
     (case tmpDir of
        None \<Rightarrow> fs
      | Some dir \<Rightarrow> if truthy dir then rm dir fs else fs)"

subsection \<open>Numbers in messages\<close>

text \<open>The decimal digits of a count, as a template literal prints it.\<close>

function decimal :: "nat \<Rightarrow> jsstring" where
  "decimal n = (if n < 10 then [48 + n] else decimal (n div 10) @ [48 + n mod 10])"
  by pat_completeness auto
termination
  by (relation "measure id") auto

subsection \<open>Dependency check\<close>








text \<open>
  \<open>toLowerCase\<close> on code units: the ASCII capitals, and the two code units above
  them whose lower case holds an ASCII letter (U+0130 and the Kelvin sign); every
  other code unit above 127 has a lower case above 127, which no comparison here
  tells from the unit itself.
\<close>

definition to_lower_unit :: "nat \<Rightarrow> jsstring" where
  "to_lower_unit c =
     (if 65 \<le> c \<and> c \<le> 90 then [c + 32]
      else if c = 304 then [105, 775]
      else if c = 8490 then [107]
      else [c])"

definition toLowerCase :: "jsstring \<Rightarrow> jsstring" where
  "toLowerCase s = concat (map to_lower_unit s)"








subsection \<open>Formatting and lint fixes\<close>






subsection \<open>Reading counts in test output\<close>

text \<open>
  The patterns of runTests, each tried at the head of a string. \<open>\d\<close> is an ASCII
  digit, \<open>\s\<close> is white space, and under the flag \<open>i\<close> a letter of the pattern
  matches itself and its ASCII capital. Every quantifier is greedy, and in each
  pattern the character that must follow a run cannot belong to the run, so the
  longest run is the only one that can match. \<open>Number\<close> of the digits is taken as
  a natural number: the tests on it (zero, positive) do not depend on rounding.
\<close>

definition is_digit :: "nat \<Rightarrow> bool" where
  "is_digit c = (48 \<le> c \<and> c \<le> 57)"

definition Number :: "jsstring \<Rightarrow> nat" where
  "Number ds = foldl (\<lambda>n d. 10 * n + (d - 48)) 0 ds"

fun starts_with_ci :: "jsstring \<Rightarrow> jsstring \<Rightarrow> bool" where
  "starts_with_ci [] s = True"
| "starts_with_ci (p # ps) [] = False"
| "starts_with_ci (p # ps) (c # cs) =
     ((c = p \<or> (65 \<le> c \<and> c \<le> 90 \<and> c + 32 = p)) \<and> starts_with_ci ps cs)"

text \<open>\<open>(\d+)\s*word\<close> with the flag \<open>i\<close>\<close>

definition count_here :: "jsstring \<Rightarrow> jsstring \<Rightarrow> nat option" where
  "count_here word s =
     (let ds = takeWhile is_digit s;
          r = dropWhile is_space (dropWhile is_digit s)
      in if ds \<noteq> [] \<and> starts_with_ci word r then Some (Number ds) else None)"

text \<open>\<open>(?:test(?:s)?|spec(?:s)?)\<close>: what follows the noun, if it is there\<close>

definition noun_here :: "jsstring \<Rightarrow> jsstring option" where
  "noun_here s =
     (if starts_with_ci (js ''test'') s \<or> starts_with_ci (js ''spec'') s then
        (let r = drop 4 s in
         Some (if starts_with_ci (js ''s'') r then drop 1 r else r))
      else None)"

text \<open>\<open>(\d+)\s*(?:test(?:s)?|spec(?:s)?)\s*word\<close> with the flag \<open>i\<close>\<close>

definition counted_here :: "jsstring \<Rightarrow> jsstring \<Rightarrow> nat option" where
  "counted_here word s =
     (let ds = takeWhile is_digit s;
          r = dropWhile is_space (dropWhile is_digit s)
      in if ds = [] then None
         else (case noun_here r of
                 None \<Rightarrow> None
               | Some r' \<Rightarrow>
                   if starts_with_ci word (dropWhile is_space r') then Some (Number ds)
                   else None))"

text \<open>The mark, then \<open>\s*(\d+)\<close>\<close>

definition mark_here :: "nat \<Rightarrow> jsstring \<Rightarrow> nat option" where
  "mark_here mark s =
     (case s of
        [] \<Rightarrow> None
      | c # r \<Rightarrow>
          (let ds = takeWhile is_digit (dropWhile is_space r)
           in if c = mark \<and> ds \<noteq> [] then Some (Number ds) else None))"

definition cross_mark :: nat where
  "cross_mark = 10006"

definition check_mark :: nat where
  "check_mark = 10004"

text \<open>\<open>a.match(p) || a.match(q)\<close>\<close>

definition or_match :: "nat option \<Rightarrow> nat option \<Rightarrow> nat option" where
  "or_match a b = (case a of Some n \<Rightarrow> Some n | None \<Rightarrow> b)"

definition failedMatch :: "jsstring \<Rightarrow> nat option" where
  "failedMatch output =
     or_match (search (counted_here (js ''failed'')) output) (search (mark_here cross_mark) output)"

definition passedMatch :: "jsstring \<Rightarrow> nat option" where
  "passedMatch output =
     or_match (search (counted_here (js ''passed'')) output) (search (mark_here check_mark) output)"

definition totalMatch :: "jsstring \<Rightarrow> nat option" where
  "totalMatch output = search (count_here (js ''total'')) output"

subsection \<open>Running tests\<close>

record TestRunResult =
  tr_passed :: bool
  tr_totalTests :: nat
  tr_failedTests :: nat
  tr_errors :: "jsstring list"
  tr_duration :: int
  tr_output :: jsstring

record tests_env = ws_env +
  NOSANA_ENABLED :: "jsstring option"
  NOSANA_MARKET :: "jsstring option"
  TEST_COMMAND :: "jsstring option"
  startTime :: int
  endTime :: int

definition default_remote_command :: jsstring where
  \<open>default_remote_command =
     js ''npm test --silent || pnpm test --silent || yarn test --silent || echo "No tests"''\<close>

definition job_command :: "jsstring \<Rightarrow> jsstring \<Rightarrow> jsstring \<Rightarrow> jsstring" where
  \<open>job_command repoUrl testCmd market =
     js ''nosana job post bash -lc "git clone '' @ repoUrl @ js '' repo && cd repo && '' @ testCmd
       @ js ''" --wait --market '' @ market\<close>

text \<open>The result every failure before a test run is turned into.\<close>

definition not_run :: "tests_env \<Rightarrow> nat \<Rightarrow> jsstring list \<Rightarrow> jsstring \<Rightarrow> TestRunResult" where
  "not_run env failed errs out =
     \<lparr>tr_passed = False, tr_totalTests = 0, tr_failedTests = failed, tr_errors = errs,
      tr_duration = endTime env - startTime env, tr_output = out\<rparr>"

text \<open>
  The remote run: the outputs that are not empty are joined by a line feed, and the
  counts are read with \<open>(\d+)\s*failed\<close>, \<open>(\d+)\s*passed\<close> and the words
  \<open>fail\<close> and \<open>pass\<close>.
\<close>

definition remote_result :: "tests_env \<Rightarrow> jsstring \<Rightarrow> jsstring \<Rightarrow> TestRunResult" where
  "remote_result env stdout stderr =
     (let out = (if truthy stdout \<and> truthy stderr then stdout @ [10] @ stderr
                    else stdout @ stderr);
          failed = (case search (count_here (js ''failed'')) out of
                      Some n \<Rightarrow> n
                    | None \<Rightarrow> if js_includes (js ''fail'') (toLowerCase out) then 1 else 0);
          total = (case search (count_here (js ''passed'')) out of
                     Some n \<Rightarrow> n + failed
                   | None \<Rightarrow> if failed > 0 then failed else 0)
      in \<lparr>tr_passed = (failed = 0 \<and> js_includes (js ''pass'') (toLowerCase out)),
          tr_totalTests = total, tr_failedTests = failed,
          tr_errors = (if failed > 0
                    then [js ''Tests reported failures. Inspect job logs for details.'']
                    else []),
          tr_duration = endTime env - startTime env, tr_output = out\<rparr>)"

text \<open>The local run, from the outputs of a test command that exited with status 0.\<close>

definition local_result :: "tests_env \<Rightarrow> jsstring \<Rightarrow> jsstring \<Rightarrow> TestRunResult" where
  "local_result env stdout stderr =
     (let out = stdout @ stderr;
          failed = (case failedMatch out of Some n \<Rightarrow> n | None \<Rightarrow> 0);
          passedTests = (case passedMatch out of Some n \<Rightarrow> n | None \<Rightarrow> 0);
          total = (case totalMatch out of Some n \<Rightarrow> n | None \<Rightarrow> failed + passedTests)
      in \<lparr>tr_passed = (failed = 0 \<and> total > 0),
          tr_totalTests = total, tr_failedTests = failed,
          tr_errors = (if failed > 0 then [decimal failed @ js '' test(s) failed''] else []),
          tr_duration = endTime env - startTime env, tr_output = take 1000 out\<rparr>)"

definition runTests ::
  "tests_env \<Rightarrow> jsstring option \<Rightarrow> jsstring option \<Rightarrow> filesystem
     \<Rightarrow> TestRunResult \<times> filesystem \<times> jsstring option" where
  "runTests env repoUrlParam testCommandParam fs =
     (let repoUrl = or_else repoUrlParam [] in
      if NOSANA_ENABLED env = Some (js ''true'') \<and> truthy repoUrl then
        (let testCmd = or_else testCommandParam (or_else (TEST_COMMAND env) default_remote_command);
             market = or_else (NOSANA_MARKET env) []
         in if \<not> truthy market then
              (not_run env 0 [js ''NOSANA_ENABLED set but NOSANA_MARKET missing''] [], fs, None)
            else
              (case cr_result (ws_exec env (job_command repoUrl testCmd market)) of
                 Exited stdout stderr \<Rightarrow> (remote_result env stdout stderr, fs, None)
               | Rejected k m out err \<Rightarrow> (not_run env 0 [m] [], fs, None)))
      else if \<not> truthy repoUrl then
        (not_run env 0 [js ''Repository URL is required to run tests''] [], fs, None)
      else
        (case mkdtemp env (js ''reposage-test-'') fs of
           (Inl e, fs0) \<Rightarrow>
             (not_run env 0 [js ''Failed to run tests: '' @ e] [], finally_rm None fs0, None)
         | (Inr tmpDir, fs0) \<Rightarrow>
             (case clone env tmpDir fs0 of
                (Some e, fs1) \<Rightarrow>
                  (not_run env 0 [js ''Failed to run tests: '' @ e] [],
                   finally_rm (Some tmpDir) fs1, Some tmpDir)
              | (None, fs1) \<Rightarrow>
                  (let testCmd = or_else testCommandParam (js ''npm test || pnpm test || yarn test'')
                   in case execAsync env testCmd tmpDir fs1 of
                        (Exited stdout stderr, fs2) \<Rightarrow>
                          (local_result env stdout stderr,
                           finally_rm (Some tmpDir) fs2, Some tmpDir)
                      | (Rejected k m out err, fs2) \<Rightarrow>
                          (not_run env 1
                             [js ''Test execution failed: '' @
                                (if truthy m then m else js ''Test execution failed'')]
                             (take 1000 (or_else out [] @ or_else err [])),
                           finally_rm (Some tmpDir) fs2, Some tmpDir)))))"

text \<open>
  A run is local when the remote branch of runTests is not taken; \<open>local_command\<close>
  is the command a local run executes.
\<close>

definition local_run :: "tests_env \<Rightarrow> jsstring option \<Rightarrow> bool" where
  "local_run env repoUrlParam =
     (\<not> (NOSANA_ENABLED env = Some (js ''true'') \<and> truthy (or_else repoUrlParam [])))"

definition local_command :: "jsstring option \<Rightarrow> jsstring" where
  "local_command testCommandParam =
     or_else testCommandParam (js ''npm test || pnpm test || yarn test'')"

subsection \<open>Repository analysis\<close>

datatype issue_type = test_failure | lint_error | type_error | build_error | security_issue

datatype issue_severity = sev_critical | sev_high | sev_medium | sev_low












subsection \<open>Example runs\<close>


definition example_tests_env :: "exec_result \<Rightarrow> error option \<Rightarrow> tests_env" where
  "example_tests_env result clone_error =
     \<lparr>ws_tmpdir = js ''/tmp'', ws_mkdtemp = Inr (js ''x''),
      ws_clone = \<lparr>cl_error = clone_error, cl_wrote = [js ''README.md'']\<rparr>,
      ws_exec = (\<lambda>cmd. \<lparr>cr_result = result, cr_wrote = [js ''out.log'']\<rparr>),
      NOSANA_ENABLED = None, NOSANA_MARKET = None, TEST_COMMAND = None,
      startTime = 1000, endTime = 3500\<rparr>"




section \<open>Label generation\<close>








definition example_url :: jsstring where
  "example_url = js ''https://github.com/o/r''"

section \<open>Properties\<close>

subsection \<open>Repository coordinates\<close>

lemma js_Nil [simp]: "js [] = []"
  by (simp add: js_def)

lemma js_Cons [simp]: "js (c # cs) = of_char c # js cs"
  by (simp add: js_def)

text \<open>
  C8. Coordinate resolution is a function of the URL, but the repository name can
  keep a trailing \<open>.git\<close>: \<open>replace\<close> removes the first occurrence of \<open>.git\<close>,
  wherever it is. For the clone URL of a GitHub Pages repository the \<open>.git\<close>
  inside \<open>.github.io\<close> is removed and the suffix stays.
\<close>

theorem extractRepoIdentifiers_keeps_git_suffix:
  "extractRepoIdentifiers (js ''https://github.com/octocat/octocat.github.io.git'')
     = Inr \<lparr>owner = js ''octocat'', repo = js ''octocathub.io.git''\<rparr>
   \<and> ends_with (js ''.git'') (js ''octocathub.io.git'')"
  by (simp add: extractRepoIdentifiers_def regex_match_repo_def repo_match_here_def slash_def)

subsection \<open>Label generation\<close>








lemma example_url_ids:
  "extractRepoIdentifiers example_url = Inr \<lparr>owner = js ''o'', repo = js ''r''\<rparr>"
  by (simp add: example_url_def extractRepoIdentifiers_def regex_match_repo_def
        repo_match_here_def slash_def)








subsection \<open>Reading a file\<close>

lemma branchesToTry_shape:
  "branchesToTry branch def =
     conventional_candidates
       (if given_branch branch = None \<and> obtained_default def = None
        then [js ''main'', js ''master''] else [])
       (given_branch branch) (obtained_default def)"
  by (auto simp: branchesToTry_def conventional_candidates_def given_branch_def
        obtained_default_def option_list_def dedup_def Let_def
      split: option.splits sum.splits)

lemma try_branches_tried:
  "snd (snd (try_branches env filePath bs le))
     = takeWhile (\<lambda>b. isl (attempt_branch env filePath b)) bs
       @ take 1 (dropWhile (\<lambda>b. isl (attempt_branch env filePath b)) bs)"
  by (induction bs arbitrary: le) (simp_all add: split_beta split: sum.splits)

lemma try_branches_found:
  "fst (try_branches env filePath bs le)
     = (case find (\<lambda>b. \<not> isl (attempt_branch env filePath b)) bs of
          None \<Rightarrow> None
        | Some b \<Rightarrow> (case attempt_branch env filePath b of Inl e \<Rightarrow> None | Inr f \<Rightarrow> Some f))"
  by (induction bs arbitrary: le) (simp_all add: split_beta split: sum.splits)

lemma try_branches_lastError:
  "fst (try_branches env filePath bs le) = None \<Longrightarrow>
   fst (snd (try_branches env filePath bs le))
     = (case bs of [] \<Rightarrow> le
        | _ \<Rightarrow> (case attempt_branch env filePath (last bs) of Inl e \<Rightarrow> Some e | Inr f \<Rightarrow> None))"
  by (induction bs arbitrary: le) (auto simp: split_beta split: sum.splits list.splits)


lemma readFileFromRepo_run:
  assumes "extractRepoIdentifiers repoUrl = Inr ids" and "env_set (rf_GITHUB_TOKEN env)"
    and "cands = branchesToTry branch (getDefaultBranch (rf_repoResp env))"
  shows "content_branches (snd (readFileFromRepo env repoUrl filePath branch))
           = takeWhile (\<lambda>b. isl (attempt_branch env filePath b)) cands
             @ take 1 (dropWhile (\<lambda>b. isl (attempt_branch env filePath b)) cands)"
    and "case find (\<lambda>b. \<not> isl (attempt_branch env filePath b)) cands of
           Some b \<Rightarrow> fst (readFileFromRepo env repoUrl filePath branch) = attempt_branch env filePath b
         | None \<Rightarrow> isl (fst (readFileFromRepo env repoUrl filePath branch))"
proof -
  obtain r le tried where tb: "try_branches env filePath cands None = (r, le, tried)"
    by (cases "try_branches env filePath cands None") auto
  have tried: "tried = takeWhile (\<lambda>b. isl (attempt_branch env filePath b)) cands
             @ take 1 (dropWhile (\<lambda>b. isl (attempt_branch env filePath b)) cands)"
    using try_branches_tried [of env filePath cands None] tb by simp
  have r: "r = (case find (\<lambda>b. \<not> isl (attempt_branch env filePath b)) cands of
          None \<Rightarrow> None
        | Some b \<Rightarrow> (case attempt_branch env filePath b of Inl e \<Rightarrow> None | Inr f \<Rightarrow> Some f))"
    using try_branches_found [of env filePath cands None] tb by simp
  have cb: "content_branches (DefaultBranchQuery # map ContentQuery tried @ rest)
              = tried @ content_branches rest" for rest
    by (induction tried) (simp_all add: content_branches_def)
  have snd_run: "content_branches (snd (readFileFromRepo env repoUrl filePath branch)) = tried"
    using assms tb cb [of "[]"] cb [of "[BranchQuery x]" for x]
    by (auto simp: readFileFromRepo_def Let_def content_branches_def
             simp del: js_Cons js_Nil split: option.splits sum.splits)
  show "content_branches (snd (readFileFromRepo env repoUrl filePath branch))
           = takeWhile (\<lambda>b. isl (attempt_branch env filePath b)) cands
             @ take 1 (dropWhile (\<lambda>b. isl (attempt_branch env filePath b)) cands)"
    using snd_run tried by simp
  show "case find (\<lambda>b. \<not> isl (attempt_branch env filePath b)) cands of
           Some b \<Rightarrow> fst (readFileFromRepo env repoUrl filePath branch) = attempt_branch env filePath b
         | None \<Rightarrow> isl (fst (readFileFromRepo env repoUrl filePath branch))"
  proof (cases "find (\<lambda>b. \<not> isl (attempt_branch env filePath b)) cands")
    case None
    with r have "r = None" by simp
    with assms tb have "isl (fst (readFileFromRepo env repoUrl filePath branch))"
      by (auto simp: readFileFromRepo_def Let_def simp del: js_Cons js_Nil
               split: option.splits sum.splits)
    with None show ?thesis by simp
  next
    case (Some b)
    then have "\<not> isl (attempt_branch env filePath b)"
      by (auto simp: find_Some_iff)
    then obtain f where f: "attempt_branch env filePath b = Inr f"
      by (cases "attempt_branch env filePath b") auto
    with r Some have "r = Some f" by simp
    with assms tb have "fst (readFileFromRepo env repoUrl filePath branch) = Inr f"
      by (auto simp: readFileFromRepo_def Let_def simp del: js_Cons js_Nil
               split: option.splits sum.splits)
    with Some f show ?thesis by simp
  qed
qed

lemma readFileFromRepo_all_fail:
  assumes "extractRepoIdentifiers repoUrl = Inr ids" and "env_set (rf_GITHUB_TOKEN env)"
    and "cands = branchesToTry branch (getDefaultBranch (rf_repoResp env))"
    and "fst (try_branches env filePath cands None) = None"
  shows "fst (readFileFromRepo env repoUrl filePath branch)
           = Inl (fetch_failed filePath (owner ids @ js ''/'' @ repo ids)
                   (fst (snd (try_branches env filePath cands None))))"
proof -
  obtain le tried where tb: "try_branches env filePath cands None = (None, le, tried)"
    using assms(4) by (cases "try_branches env filePath cands None") auto
  with assms(1-3) show ?thesis
    by (simp add: readFileFromRepo_def Let_def del: js_Cons js_Nil split: sum.splits)
qed


lemma env_of_token: "env_set (rf_GITHUB_TOKEN (readfile_env_of d h ex))"
  by (simp add: readfile_env_of_def env_set_def truthy_def)

lemma env_of_default:
  "truthy d \<Longrightarrow> getDefaultBranch (rf_repoResp (readfile_env_of d h ex)) = Inr (Some d)"
  by (simp add: readfile_env_of_def getDefaultBranch_def)

lemma env_of_attempt_holder:
  "attempt_branch (readfile_env_of d h ex) (js ''README.md'') h = Inr readme_file"
  by (simp add: readfile_env_of_def attempt_branch_def readme_reply_def readme_file_def
        del: js_Cons js_Nil)

lemma env_of_attempt_other:
  "b \<noteq> h \<Longrightarrow> attempt_branch (readfile_env_of d h ex) fp b
     = Inl (js ''Branch '' @ [39] @ b @ [39] @ js '': '' @ js ''Not Found'')"
  by (simp add: readfile_env_of_def attempt_branch_def not_found_reply_def status_message_def
        Let_def del: js_Cons js_Nil)

lemma distinct_names:
  "js ''main'' \<noteq> js ''master''" "js ''dev'' \<noteq> js ''main''" "js ''dev'' \<noteq> js ''master''"
  "js ''nope'' \<noteq> js ''main''" "js ''nope'' \<noteq> js ''master''" "js ''nope'' \<noteq> js ''none''"
  "js ''main'' \<noteq> js ''none''" 
  "truthy (js ''main'')" "truthy (js ''dev'')" "truthy (js ''nope'')"
  by (simp_all add: truthy_def)

lemma cands_dev_main:
  "branchesToTry (Some (js ''dev'')) (Inr (Some (js ''main''))) = [js ''dev'', js ''main'']"
  using distinct_names by (simp add: branchesToTry_def Let_def del: js_Cons js_Nil)

lemma cands_nope_main:
  "branchesToTry (Some (js ''nope'')) (Inr (Some (js ''main''))) = [js ''nope'', js ''main'']"
  using distinct_names by (simp add: branchesToTry_def Let_def del: js_Cons js_Nil)

lemma spec_dev_main:
  "spec_branch_candidates (Some (js ''dev'')) (Some (js ''main''))
     = [js ''dev'', js ''main'', js ''master'']"
  using distinct_names
  by (simp add: spec_branch_candidates_def conventional_candidates_def dedup_def
        option_list_def del: js_Cons js_Nil)

text \<open>
  C2, as amended. For a call with a well-formed URL and a token, the branches asked of
  the contents endpoint are, in order, the explicit branch if given, then the default
  branch if the repository reports one that is distinct, and the names \<open>main\<close> and
  \<open>master\<close> only when there is neither; the walk stops at the first branch that
  yields the file, and that file is the result; when no branch yields it the call
  fails.
\<close>

theorem readFileFromRepo_candidates:
  assumes "extractRepoIdentifiers repoUrl = Inr ids" and "env_set (rf_GITHUB_TOKEN env)"
  shows "let explicit = given_branch branch;
             default_branch = obtained_default (getDefaultBranch (rf_repoResp env));
             cands = conventional_candidates
                       (if explicit = None \<and> default_branch = None
                        then [js ''main'', js ''master''] else [])
                       explicit default_branch;
             failed = (\<lambda>b. isl (attempt_branch env filePath b));
             run = readFileFromRepo env repoUrl filePath branch
         in content_branches (snd run) = takeWhile failed cands @ take 1 (dropWhile failed cands)
            \<and> (case find (\<lambda>b. \<not> failed b) cands of
                  Some b \<Rightarrow> fst run = attempt_branch env filePath b
                | None \<Rightarrow> isl (fst run))"
  unfolding Let_def branchesToTry_shape [symmetric]
  using readFileFromRepo_run [OF assms refl] by (rule conjI)

theorem readFileFromRepo_candidates_witness:
  "extractRepoIdentifiers example_url = Inr \<lparr>owner = js ''o'', repo = js ''r''\<rparr>
   \<and> env_set (rf_GITHUB_TOKEN (readfile_env_of (js ''main'') (js ''main'') (\<lambda>b. True)))
   \<and> content_branches (snd (readFileFromRepo (readfile_env_of (js ''main'') (js ''main'') (\<lambda>b. True))
         example_url (js ''README.md'') None)) = [js ''main'']
   \<and> fst (readFileFromRepo (readfile_env_of (js ''main'') (js ''main'') (\<lambda>b. True))
         example_url (js ''README.md'') None) = Inr readme_file"
proof -
  let ?env = "readfile_env_of (js ''main'') (js ''main'') (\<lambda>b. True)"
  have cands: "conventional_candidates
                 (if given_branch None = None
                     \<and> obtained_default (getDefaultBranch (rf_repoResp ?env)) = None
                  then [js ''main'', js ''master''] else [])
                 (given_branch None) (obtained_default (getDefaultBranch (rf_repoResp ?env)))
               = [js ''main'']"
    using distinct_names
    by (simp add: env_of_default given_branch_def obtained_default_def
          conventional_candidates_def dedup_def option_list_def del: js_Cons js_Nil)
  have found: "\<not> isl (attempt_branch ?env (js ''README.md'') (js ''main''))"
    by (simp add: env_of_attempt_holder del: js_Cons js_Nil)
  from readFileFromRepo_candidates [OF example_url_ids env_of_token,
      where d1 = "js ''main''" and h1 = "js ''main''" and ex1 = "\<lambda>b. True"
        and filePath = "js ''README.md''" and branch = None]
  have "content_branches (snd (readFileFromRepo ?env example_url (js ''README.md'') None))
          = [js ''main'']
        \<and> fst (readFileFromRepo ?env example_url (js ''README.md'') None)
          = attempt_branch ?env (js ''README.md'') (js ''main'')"
    unfolding Let_def cands using found by (simp del: js_Cons js_Nil)
  then show ?thesis
    using example_url_ids env_of_token by (simp add: env_of_attempt_holder del: js_Cons js_Nil)
qed

text \<open>
  With an explicit branch \<open>dev\<close> and the default branch \<open>main\<close>, the branch
  \<open>master\<close> is never asked, although the list of the specification holds it and
  the file is there: the call fails.
\<close>

theorem readFileFromRepo_skips_master:
  "content_branches (snd (readFileFromRepo (readfile_env_of (js ''main'') (js ''master'') (\<lambda>b. True))
       example_url (js ''README.md'') (Some (js ''dev''))))
     = [js ''dev'', js ''main'']
   \<and> spec_branch_candidates (Some (js ''dev'')) (Some (js ''main''))
       = [js ''dev'', js ''main'', js ''master'']
   \<and> attempt_branch (readfile_env_of (js ''main'') (js ''master'') (\<lambda>b. True))
         (js ''README.md'') (js ''master'') = Inr readme_file
   \<and> isl (fst (readFileFromRepo (readfile_env_of (js ''main'') (js ''master'') (\<lambda>b. True))
       example_url (js ''README.md'') (Some (js ''dev''))))"
proof -
  let ?env = "readfile_env_of (js ''main'') (js ''master'') (\<lambda>b. True)"
  have cands: "[js ''dev'', js ''main'']
                 = branchesToTry (Some (js ''dev'')) (getDefaultBranch (rf_repoResp ?env))"
    using distinct_names by (simp add: env_of_default cands_dev_main del: js_Cons js_Nil)
  have fails: "isl (attempt_branch ?env (js ''README.md'') (js ''dev''))"
    "isl (attempt_branch ?env (js ''README.md'') (js ''main''))"
    using distinct_names by (simp_all add: env_of_attempt_other del: js_Cons js_Nil)
  note run = readFileFromRepo_run [OF example_url_ids env_of_token cands,
      of "js ''README.md''"]
  from run(1) fails have "content_branches (snd (readFileFromRepo ?env
       example_url (js ''README.md'') (Some (js ''dev'')))) = [js ''dev'', js ''main'']"
    by (simp del: js_Cons js_Nil)
  moreover from run(2) fails have "isl (fst (readFileFromRepo ?env
       example_url (js ''README.md'') (Some (js ''dev''))))"
    by (simp del: js_Cons js_Nil)
  ultimately show ?thesis
    using spec_dev_main env_of_attempt_holder by (simp del: js_Cons js_Nil)
qed


lemma fetch_failed_no_nope:
  "\<not> js_includes (js ''nope'')
       (fetch_failed (js ''README.md'') (js ''o/r'')
          (Some (js ''Branch '' @ [39] @ js ''main'' @ [39] @ js '': '' @ js ''Not Found'')))"
  by (simp add: fetch_failed_def js_includes_def)

text \<open>
  C3. When every candidate fails the existence of the first candidate is asked for, and
  the error for a missing branch is built and thrown, but inside the \<open>try\<close> whose
  empty \<open>catch\<close> swallows it. For the missing branch \<open>nope\<close> of a repository
  whose default branch is \<open>main\<close> the call fails with the general message, which
  carries the last error (that of \<open>main\<close>) and does not name \<open>nope\<close>.
\<close>

theorem readFileFromRepo_swallows_branch_not_found:
  "doesBranchExist (rf_branchResp (readfile_env_of (js ''main'') (js ''none'') (\<lambda>b. b = js ''main''))
       (js ''nope'')) = Inr False
   \<and> fst (readFileFromRepo (readfile_env_of (js ''main'') (js ''none'') (\<lambda>b. b = js ''main''))
         example_url (js ''README.md'') (Some (js ''nope'')))
       = Inl (fetch_failed (js ''README.md'') (js ''o/r'')
               (Some (js ''Branch '' @ [39] @ js ''main'' @ [39] @ js '': '' @ js ''Not Found'')))
   \<and> \<not> js_includes (js ''nope'')
         (fetch_failed (js ''README.md'') (js ''o/r'')
            (Some (js ''Branch '' @ [39] @ js ''main'' @ [39] @ js '': '' @ js ''Not Found'')))"
proof -
  let ?env = "readfile_env_of (js ''main'') (js ''none'') (\<lambda>b. b = js ''main'')"
  have cands: "[js ''nope'', js ''main'']
                 = branchesToTry (Some (js ''nope'')) (getDefaultBranch (rf_repoResp ?env))"
    using distinct_names by (simp add: env_of_default cands_nope_main del: js_Cons js_Nil)
  have loop: "try_branches ?env (js ''README.md'') [js ''nope'', js ''main''] None
                = (None, Some (js ''Branch '' @ [39] @ js ''main'' @ [39] @ js '': '' @ js ''Not Found''),
                   [js ''nope'', js ''main''])"
    using distinct_names by (simp add: env_of_attempt_other del: js_Cons js_Nil)
  have probe: "doesBranchExist (rf_branchResp ?env (js ''nope'')) = Inr False"
    using distinct_names by (simp add: doesBranchExist_def readfile_env_of_def del: js_Cons js_Nil)
  have "fst (readFileFromRepo ?env example_url (js ''README.md'') (Some (js ''nope'')))
       = Inl (fetch_failed (js ''README.md'')
               (owner \<lparr>owner = js ''o'', repo = js ''r''\<rparr> @ js ''/''
                  @ repo \<lparr>owner = js ''o'', repo = js ''r''\<rparr>)
               (fst (snd (try_branches ?env (js ''README.md'') [js ''nope'', js ''main''] None))))"
    by (rule readFileFromRepo_all_fail [OF example_url_ids env_of_token cands])
       (simp only: loop fst_conv)
  then have "fst (readFileFromRepo ?env example_url (js ''README.md'') (Some (js ''nope'')))
       = Inl (fetch_failed (js ''README.md'') (js ''o/r'')
               (Some (js ''Branch '' @ [39] @ js ''main'' @ [39] @ js '': '' @ js ''Not Found'')))"
    unfolding loop by simp
  with probe fetch_failed_no_nope show ?thesis
    by (simp del: js_Cons js_Nil)
qed

subsection \<open>Operations that publish generated text\<close>

lemma aiImprovePullRequest_publishes:
  assumes "extractRepoIdentifiers repoUrl = Inr ids" and "env_set (ai_OPENAI_API_KEY env)"
    and "pr_metadata (ai_prMetaResp env) = Inr prMeta"
    and "or_else (pr_diff_url prMeta) [] \<noteq> []"
    and "ai_diffResp env = Inr diffResp" and "ok diffResp"
    and "chat_content (ai_openaiResp env) = Inr suggestions"
  shows "aiImprovePullRequest env repoUrl prNumber publish
           = finish_published env suggestions
               (post_comment env publish (or_else (ai_GITHUB_TOKEN env) []) prMeta suggestions)"
  using assms by (simp add: aiImprovePullRequest_def Let_def del: js_Cons js_Nil)

lemma aiAskPullRequest_publishes:
  assumes "extractRepoIdentifiers repoUrl = Inr ids" and "env_set (ai_OPENAI_API_KEY env)"
    and "pr_metadata (ai_prMetaResp env) = Inr prMeta"
    and "chat_content (ai_openaiResp env) = Inr answer"
  shows "aiAskPullRequest env repoUrl prNumber question publish
           = finish_published env answer
               (post_comment env publish (or_else (ai_GITHUB_TOKEN env) []) prMeta answer)"
  using assms by (simp add: aiAskPullRequest_def Let_def del: js_Cons js_Nil)

lemma aiDraftChangelog_publishes:
  assumes "extractRepoIdentifiers repoUrl = Inr ids" and "env_set (ai_OPENAI_API_KEY env)"
    and "pr_metadata (ai_prMetaResp env) = Inr prMeta"
    and "ai_commitsResp env = Inr commitsResp"
    and "chat_content (ai_openaiResp env) = Inr changelog"
  shows "aiDraftChangelog env repoUrl prNumber publish
           = finish_published env changelog
               (post_comment env publish (or_else (ai_GITHUB_TOKEN env) []) prMeta
                  (js ''Proposed CHANGELOG entry:'' @ [10, 10] @ changelog))"
  using assms by (simp add: aiDraftChangelog_def Let_def del: js_Cons js_Nil)

lemma aiReviewPullRequest_publishes:
  assumes "extractRepoIdentifiers repoUrl = Inr ids" and "env_set (ai_OPENAI_API_KEY env)"
    and "pr_metadata_strict (js ''Failed to fetch PR meta: '') (ai_prMetaResp env) = Inr prMeta"
    and "ai_commitsResp env = Inr commitsResp" and "json commitsResp \<noteq> None"
    and "or_else (pr_diff_url prMeta) [] \<noteq> []"
    and "ai_diffResp env = Inr diffResp" and "ok diffResp"
    and "chat_json (ai_openaiResp env) = Inr openaiData"
    and "reviewText = or_else (first_content openaiData) []"
  shows "aiReviewPullRequest env repoUrl prNumber publish
           = (Inr \<lparr>ar_success = True, ar_text = reviewText, ar_model = default_model env,
                   ar_publishedUrl =
                     fst (post_comment_guarded env publish (or_else (ai_GITHUB_TOKEN env) [])
                            prMeta reviewText)\<rparr>,
              snd (post_comment_guarded env publish (or_else (ai_GITHUB_TOKEN env) [])
                     prMeta reviewText))"
  using assms by (simp add: aiReviewPullRequest_def Let_def split_beta del: js_Cons js_Nil)

text \<open>A transport failure of the posted comment: the three unguarded steps fail.\<close>

lemma post_comment_rejected:
  assumes "publish" and "truthy ghToken" and "pr_comments_url prMeta = Some url" and "truthy url"
    and "ai_pubResp env = Inl e"
  shows "finish_published env text (post_comment env publish ghToken prMeta text)
           = (Inl e, [PostComment url text])"
  using assms by (simp add: post_comment_def finish_published_def)

lemma post_comment_guarded_rejected:
  assumes "ai_pubResp env = Inl e"
  shows "fst (post_comment_guarded env publish ghToken prMeta text) = None"
  using assms by (simp add: post_comment_guarded_def split: option.splits)

lemma post_comment_not_ok:
  assumes "ai_pubResp env = Inr pubResp" and "\<not> ok pubResp"
  shows "fst (finish_published env text (post_comment env publish ghToken prMeta text))
           = Inr \<lparr>ar_success = True, ar_text = text, ar_model = default_model env,
                  ar_publishedUrl = None\<rparr>"
  using assms by (simp add: post_comment_def finish_published_def split: option.splits)

lemma ai_env_of_facts:
  "env_set (ai_OPENAI_API_KEY (ai_env_of c p q))"
  "or_else (ai_GITHUB_TOKEN (ai_env_of c p q)) [] = js ''t''"
  "pr_metadata (ai_prMetaResp (ai_env_of c p q)) = Inr (example_pr c)"
  "pr_metadata_strict what (ai_prMetaResp (ai_env_of c p q)) = Inr (example_pr c)"
  "ai_diffResp (ai_env_of c p q) = ok_reply ()"
  "ai_commitsResp (ai_env_of c p q) = ok_reply ()"
  "ai_filesResp (ai_env_of c p q) = ok_reply ()"
  "chat_content (ai_openaiResp (ai_env_of c p q)) = Inr (js ''A'')"
  "chat_json (ai_openaiResp (ai_env_of c p q))
     = Inr \<lparr>choices = Some [Some (Some (js ''A''))], error_message = None\<rparr>"
  "ai_patchResp (ai_env_of c p q) = p"
  "ai_pubResp (ai_env_of c p q) = q"
  "default_model (ai_env_of c p q) = js ''gpt-4o-mini''"
  by (simp_all add: ai_env_of_def env_set_def truthy_def or_else_def pr_metadata_def
        pr_metadata_strict_def ok_reply_def chat_content_def chat_json_def first_content_def
        default_model_def)

lemma example_pr_facts:
  "or_else (pr_diff_url (example_pr c)) [] \<noteq> []"
  "pr_comments_url (example_pr c) = c"
  "pr_title (example_pr c) = Some (js ''T'')"
  by (simp_all add: example_pr_def or_else_def truthy_def)

lemma example_answer:
  "or_else (first_content \<lparr>choices = Some [Some (Some (js ''A''))], error_message = None\<rparr>) []
     = js ''A''"
  by (simp add: or_else_def first_content_def truthy_def)

lemma ok_reply_facts: "ok_reply b = Inr \<lparr>ok = True, statusText = js ''OK'', json = Some b\<rparr>"
  by (simp add: ok_reply_def)

text \<open>
  C4. A reply to the posted comment that is not ok never fails an operation, but a
  transport failure does: in aiImprovePullRequest, aiAskPullRequest and
  aiDraftChangelog the \<open>fetch\<close> of the publish step stands outside any \<open>try\<close>,
  and its rejection leaves the operation without the generated text. Only
  aiReviewPullRequest wraps the step and returns the review with \<open>publishedUrl\<close>
  absent.
\<close>

theorem publish_rejection_propagates:
  "fst (aiImprovePullRequest (ai_env_of (Some (js ''c'')) forbidden_reply (Inl (js ''fetch failed'')))
          example_url 5 True) = Inl (js ''fetch failed'')
   \<and> fst (aiAskPullRequest (ai_env_of (Some (js ''c'')) forbidden_reply (Inl (js ''fetch failed'')))
          example_url 5 (js ''q'') True) = Inl (js ''fetch failed'')
   \<and> fst (aiDraftChangelog (ai_env_of (Some (js ''c'')) forbidden_reply (Inl (js ''fetch failed'')))
          example_url 5 True) = Inl (js ''fetch failed'')
   \<and> fst (aiReviewPullRequest (ai_env_of (Some (js ''c'')) forbidden_reply (Inl (js ''fetch failed'')))
          example_url 5 True)
       = Inr \<lparr>ar_success = True, ar_text = js ''A'', ar_model = js ''gpt-4o-mini'',
              ar_publishedUrl = None\<rparr>"
proof -
  let ?env = "ai_env_of (Some (js ''c'')) forbidden_reply (Inl (js ''fetch failed''))"
  have tok: "truthy (js ''t'')" "truthy (js ''c'')" by (simp_all add: truthy_def)
  have rej: "finish_published ?env b (post_comment ?env True (js ''t'') (example_pr (Some (js ''c''))) b)
               = (Inl (js ''fetch failed''), [PostComment (js ''c'') b])" for b
    by (rule post_comment_rejected) (simp_all add: tok ai_env_of_facts example_pr_facts del: js_Cons js_Nil)
  have "aiImprovePullRequest ?env example_url 5 True
          = finish_published ?env (js ''A'')
              (post_comment ?env True (or_else (ai_GITHUB_TOKEN ?env) []) (example_pr (Some (js ''c''))) (js ''A''))"
    by (rule aiImprovePullRequest_publishes [OF example_url_ids, where diffResp = "\<lparr>ok = True, statusText = js ''OK'', json = Some ()\<rparr>"])
       (simp_all add: ai_env_of_facts example_pr_facts ok_reply_facts del: js_Cons js_Nil)
  then have improve: "fst (aiImprovePullRequest ?env example_url 5 True) = Inl (js ''fetch failed'')"
    by (simp add: ai_env_of_facts rej del: js_Cons js_Nil)
  have "aiAskPullRequest ?env example_url 5 (js ''q'') True
          = finish_published ?env (js ''A'')
              (post_comment ?env True (or_else (ai_GITHUB_TOKEN ?env) []) (example_pr (Some (js ''c''))) (js ''A''))"
    by (rule aiAskPullRequest_publishes [OF example_url_ids])
       (simp_all add: ai_env_of_facts del: js_Cons js_Nil)
  then have ask: "fst (aiAskPullRequest ?env example_url 5 (js ''q'') True) = Inl (js ''fetch failed'')"
    by (simp add: ai_env_of_facts rej del: js_Cons js_Nil)
  have "aiDraftChangelog ?env example_url 5 True
          = finish_published ?env (js ''A'')
              (post_comment ?env True (or_else (ai_GITHUB_TOKEN ?env) []) (example_pr (Some (js ''c'')))
                 (js ''Proposed CHANGELOG entry:'' @ [10, 10] @ js ''A''))"
    by (rule aiDraftChangelog_publishes [OF example_url_ids, where commitsResp = "\<lparr>ok = True, statusText = js ''OK'', json = Some ()\<rparr>"])
       (simp_all add: ai_env_of_facts ok_reply_facts del: js_Cons js_Nil)
  then have changelog: "fst (aiDraftChangelog ?env example_url 5 True) = Inl (js ''fetch failed'')"
    by (simp add: ai_env_of_facts post_comment_def finish_published_def example_pr_facts tok
          del: js_Cons js_Nil)
  have "aiReviewPullRequest ?env example_url 5 True
           = (Inr \<lparr>ar_success = True, ar_text = js ''A'', ar_model = default_model ?env,
                   ar_publishedUrl =
                     fst (post_comment_guarded ?env True (or_else (ai_GITHUB_TOKEN ?env) [])
                            (example_pr (Some (js ''c''))) (js ''A''))\<rparr>,
              snd (post_comment_guarded ?env True (or_else (ai_GITHUB_TOKEN ?env) [])
                     (example_pr (Some (js ''c''))) (js ''A'')))"
    by (rule aiReviewPullRequest_publishes [OF example_url_ids, where diffResp = "\<lparr>ok = True, statusText = js ''OK'', json = Some ()\<rparr>"
          and commitsResp = "\<lparr>ok = True, statusText = js ''OK'', json = Some ()\<rparr>"
          and openaiData = "\<lparr>choices = Some [Some (Some (js ''A''))], error_message = None\<rparr>"])
       (simp_all add: ai_env_of_facts example_pr_facts ok_reply_facts example_answer
          del: js_Cons js_Nil)
  then have review: "fst (aiReviewPullRequest ?env example_url 5 True)
       = Inr \<lparr>ar_success = True, ar_text = js ''A'', ar_model = js ''gpt-4o-mini'',
              ar_publishedUrl = None\<rparr>"
    by (simp add: ai_env_of_facts post_comment_guarded_rejected del: js_Cons js_Nil)
  from improve ask changelog review show ?thesis by (simp del: js_Cons js_Nil)
qed


lemma aiDescribePullRequest_publishes:
  assumes "extractRepoIdentifiers repoUrl = Inr ids" and "env_set (ai_OPENAI_API_KEY env)"
    and "pr_metadata_strict (js ''Failed to fetch PR: '') (ai_prMetaResp env) = Inr prMeta"
    and "ai_filesResp env = Inr filesResp" and "json filesResp \<noteq> None"
    and "chat_json (ai_openaiResp env) = Inr openaiData"
    and "choices openaiData = Some (Some content # others)"
    and "JSON_parse (or_else content (js ''{}'')) = JsonFields t d"
    and "title = take 256 (or_else t (or_else (pr_title prMeta) []))"
    and "description = take 40000 (or_else d [])"
    and "p = publish_description env publish (or_else (ai_GITHUB_TOKEN env) [])
               (owner ids @ js ''/'' @ repo ids) prNumber prMeta title description"
  shows "aiDescribePullRequest JSON_parse env repoUrl prNumber publish
           = (Inr \<lparr>dr_success = True, dr_title = title, dr_description = description,
                   dr_model = default_model env, dr_published = fst p\<rparr>, snd p)"
  using assms by (simp add: aiDescribePullRequest_def Let_def split_beta del: js_Cons js_Nil)

lemma aiDescribePullRequest_writes:
  assumes "w \<in> set (snd (aiDescribePullRequest JSON_parse env repoUrl prNumber publish))"
  shows "\<exists>ids prMeta title description p.
           extractRepoIdentifiers repoUrl = Inr ids
           \<and> pr_metadata_strict (js ''Failed to fetch PR: '') (ai_prMetaResp env) = Inr prMeta
           \<and> p = publish_description env publish (or_else (ai_GITHUB_TOKEN env) [])
                   (owner ids @ js ''/'' @ repo ids) prNumber prMeta title description
           \<and> aiDescribePullRequest JSON_parse env repoUrl prNumber publish
               = (Inr \<lparr>dr_success = True, dr_title = title, dr_description = description,
                       dr_model = default_model env, dr_published = fst p\<rparr>, snd p)"
  using assms
  by (auto simp: aiDescribePullRequest_def Let_def split_beta simp del: js_Cons js_Nil
           split: sum.splits option.splits list.splits if_splits parsed_description.splits)

lemma pr_metadata_strict_ok:
  assumes "pr_metadata_strict what f = Inr prMeta'" and "f = Inr prMetaResp"
    and "json prMetaResp = Some prMeta"
  shows "prMeta' = prMeta"
  using assms by (simp add: pr_metadata_strict_def split: if_splits)

lemma publish_description_fallback:
  assumes "PatchPullRequest r n t d \<in> set (snd (publish_description env publish ghToken repoName
             prNumber prMeta title description))"
    and "ai_patchResp env = Inr patchResp" and "\<not> ok patchResp"
    and "pr_comments_url prMeta = Some commentsUrl" and "truthy commentsUrl"
  shows "publish_description env publish ghToken repoName prNumber prMeta title description
           = (False, [PatchPullRequest r n t d, PostComment commentsUrl (suggestion_comment t d)])"
  using assms by (auto simp: publish_description_def split: if_splits)

lemma publish_description_patch:
  assumes "PatchPullRequest r n t d \<in> set (snd (publish_description env publish ghToken repoName
             prNumber prMeta title description))"
  shows "r = repoName \<and> n = prNumber \<and> t = title \<and> d = description"
  using assms
  by (auto simp: publish_description_def split: if_splits sum.splits option.splits)

text \<open>
  C5, as amended. When aiDescribePullRequest is called with \<open>publish\<close> set, the
  PATCH of the title and the description is sent and its reply is not ok, and the
  pull request has a \<open>comments_url\<close>, then the operation posts a comment with the
  suggested title and the suggested description and returns \<open>success\<close> true (and
  \<open>published\<close> false).
\<close>

theorem aiDescribePullRequest_fallback:
  assumes sent: "PatchPullRequest repoName n title description
             \<in> set (snd (aiDescribePullRequest JSON_parse env repoUrl prNumber True))"
    and patch: "ai_patchResp env = Inr patchResp" "\<not> ok patchResp"
    and meta: "ai_prMetaResp env = Inr prMetaResp" "json prMetaResp = Some prMeta"
    and url: "pr_comments_url prMeta = Some commentsUrl" "truthy commentsUrl"
  shows "aiDescribePullRequest JSON_parse env repoUrl prNumber True
           = (Inr \<lparr>dr_success = True, dr_title = title, dr_description = description,
                   dr_model = default_model env, dr_published = False\<rparr>,
              [PatchPullRequest repoName n title description,
               PostComment commentsUrl (suggestion_comment title description)])"
proof -
  from aiDescribePullRequest_writes [OF sent] obtain ids prMeta' title' description' p
    where ids: "extractRepoIdentifiers repoUrl = Inr ids"
      and meta': "pr_metadata_strict (js ''Failed to fetch PR: '') (ai_prMetaResp env) = Inr prMeta'"
      and p: "p = publish_description env True (or_else (ai_GITHUB_TOKEN env) [])
                   (owner ids @ js ''/'' @ repo ids) prNumber prMeta' title' description'"
      and run: "aiDescribePullRequest JSON_parse env repoUrl prNumber True
               = (Inr \<lparr>dr_success = True, dr_title = title', dr_description = description',
                       dr_model = default_model env, dr_published = fst p\<rparr>, snd p)"
    by blast
  have same: "prMeta' = prMeta"
    by (rule pr_metadata_strict_ok [OF meta' meta])
  from sent run have inp: "PatchPullRequest repoName n title description \<in> set (snd p)"
    by simp
  have "p = (False, [PatchPullRequest repoName n title description,
                      PostComment commentsUrl (suggestion_comment title description)])"
    unfolding p
    by (rule publish_description_fallback [OF inp [unfolded p] patch url [folded same]])
  moreover from publish_description_patch [OF inp [unfolded p]]
  have "title' = title" "description' = description"
    by simp_all
  ultimately show ?thesis using run by simp
qed

lemma describe_example_run:
  "aiDescribePullRequest example_parse (ai_env_of c forbidden_reply q) example_url 5 True
     = (Inr \<lparr>dr_success = True, dr_title = js ''N'', dr_description = js ''D'',
             dr_model = js ''gpt-4o-mini'',
             dr_published = fst (publish_description (ai_env_of c forbidden_reply q) True (js ''t'')
                                   (js ''o/r'') 5 (example_pr c) (js ''N'') (js ''D''))\<rparr>,
        snd (publish_description (ai_env_of c forbidden_reply q) True (js ''t'')
               (js ''o/r'') 5 (example_pr c) (js ''N'') (js ''D'')))"
proof -
  have parse: "example_parse (or_else (Some (js ''A'')) (js ''{}''))
                 = JsonFields (Some (js ''N'')) (Some (js ''D''))"
    by (simp add: example_parse_def or_else_def truthy_def)
  have texts: "js ''N'' = take 256 (or_else (Some (js ''N'')) (or_else (pr_title (example_pr c)) []))"
    "js ''D'' = take 40000 (or_else (Some (js ''D'')) [])"
    by (simp_all add: or_else_def truthy_def)
  have name: "js ''o/r'' = owner \<lparr>owner = js ''o'', repo = js ''r''\<rparr> @ js ''/''
                @ repo \<lparr>owner = js ''o'', repo = js ''r''\<rparr>"
    by simp
  let ?env = "ai_env_of c forbidden_reply q"
  let ?p = "publish_description ?env True (or_else (ai_GITHUB_TOKEN ?env) [])
              (owner \<lparr>owner = js ''o'', repo = js ''r''\<rparr> @ js ''/''
                 @ repo \<lparr>owner = js ''o'', repo = js ''r''\<rparr>)
              5 (example_pr c) (js ''N'') (js ''D'')"
  have "aiDescribePullRequest example_parse ?env example_url 5 True
          = (Inr \<lparr>dr_success = True, dr_title = js ''N'', dr_description = js ''D'',
                  dr_model = default_model ?env, dr_published = fst ?p\<rparr>, snd ?p)"
    by (rule aiDescribePullRequest_publishes [OF example_url_ids,
          where filesResp = "\<lparr>ok = True, statusText = js ''OK'', json = Some ()\<rparr>"
            and openaiData = "\<lparr>choices = Some [Some (Some (js ''A''))], error_message = None\<rparr>"
            and content = "Some (js ''A'')" and others = "[]"
            and t = "Some (js ''N'')" and d = "Some (js ''D'')"
            and prMeta = "example_pr c"])
       (simp_all add: ai_env_of_facts ok_reply_facts parse texts [symmetric] del: js_Cons js_Nil)
  then show ?thesis
    unfolding name by (simp add: ai_env_of_facts del: js_Cons js_Nil)
qed

lemma forbidden_facts:
  "forbidden_reply = Inr \<lparr>ok = False, statusText = js ''Forbidden'', json = None\<rparr>"
  by (simp add: forbidden_reply_def)

theorem aiDescribePullRequest_fallback_witness:
  "PatchPullRequest (js ''o/r'') 5 (js ''N'') (js ''D'')
     \<in> set (snd (aiDescribePullRequest example_parse
                    (ai_env_of (Some (js ''c'')) forbidden_reply forbidden_reply) example_url 5 True))
   \<and> aiDescribePullRequest example_parse
         (ai_env_of (Some (js ''c'')) forbidden_reply forbidden_reply) example_url 5 True
       = (Inr \<lparr>dr_success = True, dr_title = js ''N'', dr_description = js ''D'',
               dr_model = js ''gpt-4o-mini'', dr_published = False\<rparr>,
          [PatchPullRequest (js ''o/r'') 5 (js ''N'') (js ''D''),
           PostComment (js ''c'') (suggestion_comment (js ''N'') (js ''D''))])"
proof -
  let ?env = "ai_env_of (Some (js ''c'')) forbidden_reply forbidden_reply"
  have tok: "truthy (js ''t'')" "truthy (js ''c'')" by (simp_all add: truthy_def)
  have sent: "PatchPullRequest (js ''o/r'') 5 (js ''N'') (js ''D'')
     \<in> set (snd (aiDescribePullRequest example_parse ?env example_url 5 True))"
    unfolding describe_example_run
    by (simp add: publish_description_def tok ai_env_of_facts forbidden_facts example_pr_facts
          del: js_Cons js_Nil)
  have meta: "ai_prMetaResp ?env = Inr \<lparr>ok = True, statusText = js ''OK'',
                 json = Some (example_pr (Some (js ''c'')))\<rparr>"
    by (simp add: ai_env_of_def ok_reply_def)
  from aiDescribePullRequest_fallback [OF sent _ _ meta,
      where patchResp = "\<lparr>ok = False, statusText = js ''Forbidden'', json = None\<rparr>"
        and commentsUrl = "js ''c''"]
  have "aiDescribePullRequest example_parse ?env example_url 5 True
       = (Inr \<lparr>dr_success = True, dr_title = js ''N'', dr_description = js ''D'',
               dr_model = default_model ?env, dr_published = False\<rparr>,
          [PatchPullRequest (js ''o/r'') 5 (js ''N'') (js ''D''),
           PostComment (js ''c'') (suggestion_comment (js ''N'') (js ''D''))])"
    by (simp add: ai_env_of_facts forbidden_facts example_pr_facts tok del: js_Cons js_Nil)
  with sent show ?thesis
    by (simp add: ai_env_of_facts del: js_Cons js_Nil)
qed

text \<open>
  Without a \<open>comments_url\<close> in the pull request the rejected PATCH is the only
  request: no comment is posted.
\<close>

theorem aiDescribePullRequest_no_comments_url:
  "ai_patchResp (ai_env_of None forbidden_reply forbidden_reply)
     = Inr \<lparr>ok = False, statusText = js ''Forbidden'', json = None\<rparr>
   \<and> aiDescribePullRequest example_parse (ai_env_of None forbidden_reply forbidden_reply)
         example_url 5 True
       = (Inr \<lparr>dr_success = True, dr_title = js ''N'', dr_description = js ''D'',
               dr_model = js ''gpt-4o-mini'', dr_published = False\<rparr>,
          [PatchPullRequest (js ''o/r'') 5 (js ''N'') (js ''D'')])"
proof -
  have tok: "truthy (js ''t'')" by (simp add: truthy_def)
  show ?thesis
    unfolding describe_example_run
    by (simp add: publish_description_def tok ai_env_of_facts forbidden_facts example_pr_facts
          del: js_Cons js_Nil)
qed

subsection \<open>Ephemeral workspaces\<close>


lemma mkdtemp_cases:
  "mkdtemp env name fs =
     (case ws_mkdtemp env of
        Inl e \<Rightarrow> (Inl e, fs)
      | Inr suffix \<Rightarrow> (Inr (ws_tmpdir env @ [slash] @ name @ suffix),
                       insert (ws_tmpdir env @ [slash] @ name @ suffix) fs))"
  by (simp add: mkdtemp_def Let_def split: sum.splits)









lemma starts_with_append: "starts_with p (p @ s)"
  by (induction p) simp_all

lemma under_self: "under dir dir"
  by (simp add: under_def)

lemma under_child: "under dir (dir @ [slash] @ n)"
  using starts_with_append [of "dir @ [slash]" n] by (simp add: under_def)









lemma example_tests_env_facts:
  "ws_mkdtemp (example_tests_env r c) = Inr (js ''x'')"
  "ws_tmpdir (example_tests_env r c) = js ''/tmp''"
  "cl_error (ws_clone (example_tests_env r c)) = c"
  "cr_result (ws_exec (example_tests_env r c) cmd) = r"
  "NOSANA_ENABLED (example_tests_env r c) = None"
  by (simp_all add: example_tests_env_def)





subsection \<open>Dependency check\<close>









subsection \<open>Running tests\<close>

lemma not_run_failed: "\<not> tr_passed (not_run env n errs out)"
  by (simp add: not_run_def)

lemma local_result_passed:
  "tr_passed (local_result env stdout stderr) \<Longrightarrow>
   tr_failedTests (local_result env stdout stderr) = 0
   \<and> 0 < tr_totalTests (local_result env stdout stderr)
   \<and> (passedMatch (stdout @ stderr) \<noteq> None \<or> totalMatch (stdout @ stderr) \<noteq> None)"
  by (auto simp: local_result_def Let_def split: option.splits)

lemma runTests_local_cases:
  assumes "local_run env repoUrlParam"
  shows "(\<exists>n errs out. fst (runTests env repoUrlParam testCommandParam fs) = not_run env n errs out)
         \<or> (\<exists>stdout stderr.
               cr_result (ws_exec env (local_command testCommandParam)) = Exited stdout stderr
               \<and> fst (runTests env repoUrlParam testCommandParam fs) = local_result env stdout stderr)"
  using assms
  by (auto simp: runTests_def local_run_def local_command_def Let_def execAsync_def
           simp del: js_Cons js_Nil
           split: prod.splits sum.splits option.splits exec_result.splits if_splits)

lemma matches:
  "passedMatch (js ''5 tests passed'') = Some 5"
  "failedMatch (js ''5 tests passed'') = None"
  "totalMatch (js ''5 tests passed'') = None"
  by (simp_all add: passedMatch_def failedMatch_def totalMatch_def or_match_def counted_here_def
        count_here_def mark_here_def noun_here_def is_digit_def is_space_def Number_def
        cross_mark_def check_mark_def Let_def)


lemma runTests_local_exited:
  assumes "local_run env repoUrlParam" and "truthy (or_else repoUrlParam [])"
    and "ws_mkdtemp env = Inr suffix" and "cl_error (ws_clone env) = None"
    and "cr_result (ws_exec env (local_command testCommandParam)) = Exited stdout stderr"
  shows "fst (runTests env repoUrlParam testCommandParam fs) = local_result env stdout stderr"
  using assms
  by (simp add: runTests_def local_run_def local_command_def Let_def execAsync_def
        mkdtemp_cases clone_def del: js_Cons js_Nil)

text \<open>
  C9. In a local test run the result is \<open>passed\<close> only when the test command
  exited normally, the failure count read from its combined output is zero and the
  total is positive, which needs a recognized count of passed tests or a recognized
  total; an output that matches none of the patterns is never \<open>passed\<close>.
\<close>

theorem runTests_passed_only_on_counts:
  assumes "local_run env repoUrlParam"
  shows "(tr_passed (fst (runTests env repoUrlParam testCommandParam fs)) \<longrightarrow>
            tr_failedTests (fst (runTests env repoUrlParam testCommandParam fs)) = 0
            \<and> 0 < tr_totalTests (fst (runTests env repoUrlParam testCommandParam fs))
            \<and> (case cr_result (ws_exec env (local_command testCommandParam)) of
                  Exited stdout stderr \<Rightarrow>
                    passedMatch (stdout @ stderr) \<noteq> None \<or> totalMatch (stdout @ stderr) \<noteq> None
                | Rejected k m out err \<Rightarrow> False))
         \<and> (\<forall>stdout stderr.
               cr_result (ws_exec env (local_command testCommandParam)) = Exited stdout stderr
               \<and> failedMatch (stdout @ stderr) = None \<and> passedMatch (stdout @ stderr) = None
               \<and> totalMatch (stdout @ stderr) = None
               \<longrightarrow> \<not> tr_passed (fst (runTests env repoUrlParam testCommandParam fs)))"
proof -
  let ?r = "fst (runTests env repoUrlParam testCommandParam fs)"
  have main: "tr_passed ?r \<longrightarrow>
            tr_failedTests ?r = 0 \<and> 0 < tr_totalTests ?r
            \<and> (case cr_result (ws_exec env (local_command testCommandParam)) of
                  Exited stdout stderr \<Rightarrow>
                    passedMatch (stdout @ stderr) \<noteq> None \<or> totalMatch (stdout @ stderr) \<noteq> None
                | Rejected k m out err \<Rightarrow> False)"
  proof
    assume passed: "tr_passed ?r"
    from runTests_local_cases [OF assms, of testCommandParam fs]
    show "tr_failedTests ?r = 0 \<and> 0 < tr_totalTests ?r
            \<and> (case cr_result (ws_exec env (local_command testCommandParam)) of
                  Exited stdout stderr \<Rightarrow>
                    passedMatch (stdout @ stderr) \<noteq> None \<or> totalMatch (stdout @ stderr) \<noteq> None
                | Rejected k m out err \<Rightarrow> False)"
    proof
      assume "\<exists>n errs out. ?r = not_run env n errs out"
      with passed not_run_failed show ?thesis by auto
    next
      assume "\<exists>stdout stderr.
               cr_result (ws_exec env (local_command testCommandParam)) = Exited stdout stderr
               \<and> ?r = local_result env stdout stderr"
      then obtain stdout stderr
        where ex: "cr_result (ws_exec env (local_command testCommandParam)) = Exited stdout stderr"
          and r: "?r = local_result env stdout stderr"
        by blast
      from passed r local_result_passed [of env stdout stderr] ex
      show ?thesis by simp
    qed
  qed
  from main have "\<forall>stdout stderr.
               cr_result (ws_exec env (local_command testCommandParam)) = Exited stdout stderr
               \<and> failedMatch (stdout @ stderr) = None \<and> passedMatch (stdout @ stderr) = None
               \<and> totalMatch (stdout @ stderr) = None
               \<longrightarrow> \<not> tr_passed ?r"
    by auto
  with main show ?thesis by (rule conjI)
qed

theorem runTests_passed_only_on_counts_witness:
  "local_run (example_tests_env (Exited (js ''5 tests passed'') []) None) (Some example_url)
   \<and> tr_passed (fst (runTests (example_tests_env (Exited (js ''5 tests passed'') []) None)
                        (Some example_url) None {}))
   \<and> tr_failedTests (fst (runTests (example_tests_env (Exited (js ''5 tests passed'') []) None)
                        (Some example_url) None {})) = 0
   \<and> 0 < tr_totalTests (fst (runTests (example_tests_env (Exited (js ''5 tests passed'') []) None)
                        (Some example_url) None {}))
   \<and> passedMatch (js ''5 tests passed'' @ []) = Some 5"
proof -
  let ?env = "example_tests_env (Exited (js ''5 tests passed'') []) None"
  let ?r = "fst (runTests ?env (Some example_url) None {})"
  have local: "local_run ?env (Some example_url)"
    by (simp add: local_run_def example_tests_env_facts del: js_Cons js_Nil)
  have url: "truthy (or_else (Some example_url) [])"
    by (simp add: or_else_def truthy_def example_url_def)
  have m: "ws_mkdtemp ?env = Inr (js ''x'')" by (rule example_tests_env_facts)
  have c: "cl_error (ws_clone ?env) = None" by (rule example_tests_env_facts)
  have ex: "cr_result (ws_exec ?env (local_command None)) = Exited (js ''5 tests passed'') []"
    by (rule example_tests_env_facts)
  have r: "?r = local_result ?env (js ''5 tests passed'') []"
    by (rule runTests_local_exited [OF local url m c ex])
  have passed: "tr_passed ?r"
    unfolding r by (simp add: local_result_def Let_def matches del: js_Cons js_Nil)
  from runTests_passed_only_on_counts [OF local, of None "{}"] passed
  have "tr_failedTests ?r = 0 \<and> 0 < tr_totalTests ?r" by blast
  with local passed show ?thesis
    by (simp add: matches del: js_Cons js_Nil)
qed

end
